theory Spec2Isabelle
  imports Main
begin

section \<open>Python values\<close>

text \<open>
  The values that flow through \<^verbatim>\<open>supportscript.py\<close>: what \<^verbatim>\<open>json.loads\<close> returns
  (null, booleans, integers, strings, lists, dictionaries with string keys) and what a
  \<^verbatim>\<open>RealDictCursor\<close> row holds (the same, and \<^verbatim>\<open>datetime.date\<close> objects).
  A dictionary is an association list in insertion order. Floating-point numbers are
  outside the model. A string is a list of characters, each a code point below 256.
\<close>

datatype pyval =
    PNone
  | PBool bool
  | PInt int
  | PStr string
  | PDate nat nat nat
  | PList "pyval list"
  | PDict "(string \<times> pyval) list"

type_synonym pydict = "(string \<times> pyval) list"

text \<open>Python's truth value of an object, as \<^verbatim>\<open>if x:\<close> and \<^verbatim>\<open>not x\<close> test it.\<close>

fun truthy :: "pyval \<Rightarrow> bool" where
  "truthy PNone = False"
| "truthy (PBool b) = b"
| "truthy (PInt n) = (n \<noteq> 0)"
| "truthy (PStr s) = (s \<noteq> [])"
| "truthy (PDate y m d) = True"
| "truthy (PList xs) = (xs \<noteq> [])"
| "truthy (PDict kvs) = (kvs \<noteq> [])"

text \<open>The exceptions the modelled code can raise or catch.\<close>

datatype exn =
    KeyError string
  | TypeError
  | StoreError string

text \<open>\<^verbatim>\<open>d[k] = v\<close>: an existing key keeps its place, a new key goes last.\<close>

fun py_setitem :: "pydict \<Rightarrow> string \<Rightarrow> pyval \<Rightarrow> pydict" where
  "py_setitem [] k v = [(k, v)]"
| "py_setitem ((k', v') # kvs) k v =
     (if k' = k then (k, v) # kvs else (k', v') # py_setitem kvs k v)"

text \<open>
  \<^verbatim>\<open>a[k]\<close> with a string key \<open>k\<close>: KeyError on a dictionary without the key, TypeError on
  every other kind of object (a list or a string wants an integer index, the rest are not
  subscriptable).
\<close>

fun py_getitem :: "pyval \<Rightarrow> string \<Rightarrow> exn + pyval" where
  "py_getitem (PDict kvs) k = (case map_of kvs k of None \<Rightarrow> Inl (KeyError k) | Some v \<Rightarrow> Inr v)"
| "py_getitem PNone k = Inl TypeError"
| "py_getitem (PBool b) k = Inl TypeError"
| "py_getitem (PInt n) k = Inl TypeError"
| "py_getitem (PStr s) k = Inl TypeError"
| "py_getitem (PDate y m d) k = Inl TypeError"
| "py_getitem (PList xs) k = Inl TypeError"

text \<open>The subscripts of a tuple display are evaluated left to right; the first failure raises.\<close>

fun py_getitems :: "pyval \<Rightarrow> string list \<Rightarrow> exn + pyval list" where
  "py_getitems a [] = Inr []"
| "py_getitems a (k # ks) =
     (case py_getitem a k of
        Inl e \<Rightarrow> Inl e
      | Inr v \<Rightarrow> (case py_getitems a ks of Inl e \<Rightarrow> Inl e | Inr vs \<Rightarrow> Inr (v # vs)))"

text \<open>\<^verbatim>\<open>d.get(k, default)\<close>.\<close>

definition py_get :: "pydict \<Rightarrow> string \<Rightarrow> pyval \<Rightarrow> pyval" where
  "py_get d k dflt = (case map_of d k of None \<Rightarrow> dflt | Some v \<Rightarrow> v)"

subsection \<open>Strings\<close>

text \<open>
  The characters \<^verbatim>\<open>str.strip()\<close> removes, among the code points below 256: tab, line feed,
  vertical tab, form feed, carriage return, the four separators 0x1C to 0x1F, space,
  next line (0x85) and no-break space (0xA0).
\<close>

definition is_space :: "char \<Rightarrow> bool" where
  "is_space c = (c \<in> set [CHR 0x09, CHR 0x0A, CHR 0x0B, CHR 0x0C, CHR 0x0D,
                          CHR 0x1C, CHR 0x1D, CHR 0x1E, CHR 0x1F, CHR 0x20,
                          CHR 0x85, CHR 0xA0])"

definition py_strip :: "string \<Rightarrow> string" where
  "py_strip s = rev (dropWhile is_space (rev (dropWhile is_space s)))"

definition startswith :: "string \<Rightarrow> string \<Rightarrow> bool" where
  "startswith s p = (take (length p) s = p)"

text \<open>\<^verbatim>\<open>p in s\<close> on strings: \<open>p\<close> occurs in \<open>s\<close> as a contiguous run.\<close>

fun contains :: "string \<Rightarrow> string \<Rightarrow> bool" where
  "contains [] p = (p = [])"
| "contains (c # cs) p = (startswith (c # cs) p \<or> contains cs p)"

text \<open>\<^verbatim>\<open>f"{customer_id}"\<close> for a customer id that is a string or \<^verbatim>\<open>None\<close>.\<close>

definition str_of_id :: "string option \<Rightarrow> string" where
  "str_of_id cid = (case cid of None \<Rightarrow> ''None'' | Some s \<Rightarrow> s)"

text \<open>The truth value of a customer id: \<^verbatim>\<open>None\<close> and the empty string are falsy.\<close>

definition known :: "string option \<Rightarrow> bool" where
  "known cid = (case cid of None \<Rightarrow> False | Some s \<Rightarrow> s \<noteq> [])"

subsection \<open>Dates\<close>

text \<open>
  A \<^verbatim>\<open>datetime.date\<close> holds a year from 1 to 9999, a month from 1 to 12 and a day that the
  month has; the constructor raises on anything else. \<open>PDate y m d\<close> stands for such an
  object.
\<close>

definition is_leap :: "nat \<Rightarrow> bool" where
  "is_leap y = (y mod 4 = 0 \<and> (y mod 100 \<noteq> 0 \<or> y mod 400 = 0))"

definition days_in_month :: "nat \<Rightarrow> nat \<Rightarrow> nat" where
  "days_in_month y m =
     (if m = 2 then (if is_leap y then 29 else 28)
      else if m = 4 \<or> m = 6 \<or> m = 9 \<or> m = 11 then 30
      else 31)"

definition py_date_ok :: "nat \<times> nat \<times> nat \<Rightarrow> bool" where
  "py_date_ok dt =
     (case dt of (y, m, d) \<Rightarrow>
        1 \<le> y \<and> y \<le> 9999 \<and> 1 \<le> m \<and> m \<le> 12 \<and> 1 \<le> d \<and> d \<le> days_in_month y m)"

text \<open>
  \<^verbatim>\<open>date.strftime('%Y-%m-%d')\<close> as the C library of the platform formats it: the year in
  decimal with no padding (year 999 gives \<^verbatim>\<open>999-01-05\<close>), month and day in at least two
  digits.
\<close>

definition digit_char :: "nat \<Rightarrow> char" where
  "digit_char n = ''0123456789'' ! (n mod 10)"

function decimal :: "nat \<Rightarrow> string" where
  "decimal n = (if n < 10 then [digit_char n] else decimal (n div 10) @ [digit_char n])"
  by pat_completeness auto
termination
  by (relation "measure id") auto

declare decimal.simps [simp del]

definition pad2 :: "nat \<Rightarrow> string" where
  "pad2 n = (if n < 10 then CHR ''0'' # decimal n else decimal n)"

definition strftime_ymd :: "nat \<Rightarrow> nat \<Rightarrow> nat \<Rightarrow> string" where
  "strftime_ymd y m d = decimal y @ ''-'' @ pad2 m @ ''-'' @ pad2 d"

definition is_digit :: "char \<Rightarrow> bool" where
  "is_digit c = (c \<in> set ''0123456789'')"

text \<open>The shape \<^verbatim>\<open>YYYY-MM-DD\<close>.\<close>

definition iso_date_shape :: "string \<Rightarrow> bool" where
  "iso_date_shape s =
     (length s = 10 \<and> s ! 4 = CHR ''-'' \<and> s ! 7 = CHR ''-'' \<and>
      list_all is_digit (take 4 s) \<and> list_all is_digit (take 2 (drop 5 s)) \<and>
      list_all is_digit (drop 8 s))"

text \<open>
  Reading a text of that shape back: the numbers its three runs of digits denote, each
  digit by its character code.
\<close>

definition digit_val :: "char \<Rightarrow> nat" where
  "digit_val c = of_char c - 48"

definition nat_of_digits :: "string \<Rightarrow> nat" where
  "nat_of_digits s = foldl (\<lambda>a c. 10 * a + digit_val c) 0 s"

definition read_ymd :: "string \<Rightarrow> nat \<times> nat \<times> nat" where
  "read_ymd s =
     (nat_of_digits (take 4 s), nat_of_digits (take 2 (drop 5 s)), nat_of_digits (drop 8 s))"

fun is_date :: "pyval \<Rightarrow> bool" where
  "is_date (PDate y m d) = True"
| "is_date v = False"

section \<open>The external collaborators\<close>

subsection \<open>Completion Service\<close>

text \<open>
  A request to \<^verbatim>\<open>client.chat.completions.create\<close>. The wording of the four fixed
  instructions is left out; a request records which instruction it carries and the data
  the code interpolates into the prompts.
\<close>

datatype context_item =
    CtxCustomer pyval
  | CtxPlan pyval
  | CtxSolution string

datatype request =
    AnalyzeTicket string
  | ExtractId string
  | SolveIssue string "pydict option"
  | ComposeReply pyval pyval "context_item list" string

text \<open>
  The service raises (with the text of the exception), or returns a message whose
  \<^verbatim>\<open>content\<close> is a string or \<^verbatim>\<open>None\<close>.
\<close>

datatype llm_outcome = Raises string | Returns "string option"

subsection \<open>Relational store\<close>

text \<open>
  Modelled from the spec: the table \<^verbatim>\<open>customer_support\<close>, whose declaration is not part of
  the sources. Its columns are \<^verbatim>\<open>customer_id\<close> (primary key), \<^verbatim>\<open>name\<close>, \<^verbatim>\<open>email\<close>,
  \<^verbatim>\<open>plan\<close>, the dates \<^verbatim>\<open>join_date\<close> and \<^verbatim>\<open>last_payment\<close>, and the sequence of texts
  \<^verbatim>\<open>support_history\<close>. Every column but the key may hold NULL. A row is what the driver
  hands over: its dates are \<^verbatim>\<open>datetime.date\<close> objects, year, month and day. A stored
  date that no such object can hold makes the fetch raise, which is a failing statement
  of the world below.
\<close>

record customer_row =
  cust_id :: string
  cust_name :: "string option"
  cust_email :: "string option"
  cust_plan :: "string option"
  cust_join_date :: "(nat \<times> nat \<times> nat) option"
  cust_last_payment :: "(nat \<times> nat \<times> nat) option"
  cust_support_history :: "string list option"

datatype db_op = OpInsert | OpSelect | OpUpdate

datatype statement =
    InsertTicket "string option" "pyval list" string
  | UpdateTicket pyval "string option"
  | SelectCustomer string string

text \<open>
  The world a call runs in. \<open>llm\<close> is the Completion Service; \<open>json_loads\<close> is the JSON
  decoder (\<open>None\<close> when it raises); \<open>connect_error\<close> says, for each of the three store
  operations, whether \<^verbatim>\<open>psycopg2.connect\<close> raises and with which message;
  \<open>statement_error\<close> whether the statement (execute, fetch or commit) raises on an open
  connection; \<open>new_ticket_id\<close> is the key the insert returns; \<open>customer_support\<close> is the
  table. Rollback and close do not fail.
\<close>

record world =
  llm :: "request \<Rightarrow> llm_outcome"
  json_loads :: "string \<Rightarrow> pyval option"
  connect_error :: "db_op \<Rightarrow> string option"
  statement_error :: "db_op \<Rightarrow> string option"
  new_ticket_id :: int
  customer_support :: "customer_row list"

subsection \<open>Observable effects\<close>

text \<open>
  The messages the agents print (the orchestrator's own narration is not recorded), each
  constructor standing for one \<^verbatim>\<open>print\<close> of the source.
\<close>

datatype log_line =
    ConnectionError string
  | SavingTicket
  | CouldNotSave
  | TicketSaved int
  | SaveError exn
  | UpdatingTicket pyval
  | CouldNotUpdate
  | TicketUpdated pyval
  | UpdateError string
  | QueryingCustomer "string option"
  | QueryError string
  | ExtractingId
  | NoValidId
  | IdExtracted string
  | ExtractionFailed

text \<open>
  What a spy on the collaborators records, in order: the entry of each agent method, each
  call of the Completion Service, each call on the store, each printed message.
\<close>

datatype event =
    CallExtract string
  | CallAnalyze string "string option"
  | CallLookup "string option" string
  | CallSolve string "pydict option"
  | CallCompose
  | CallUpdate pyval "string option"
  | Completion request
  | Connect db_op
  | Execute statement
  | Commit
  | Rollback
  | Close
  | Log log_line

section \<open>The helper for API calls\<close>

text \<open>
  \<^verbatim>\<open>call_openai\<close>: every exception of the service becomes the text
  \<^verbatim>\<open>An error occurred: ...\<close>; a returned content is passed on as it is.
\<close>

definition error_marker :: string where
  "error_marker = ''An error occurred: ''"

definition call_openai :: "world \<Rightarrow> request \<Rightarrow> string option \<times> event list" where
  "call_openai w rq =
     (case llm w rq of
        Raises e \<Rightarrow> (Some (error_marker @ e), [Completion rq])
      | Returns c \<Rightarrow> (c, [Completion rq]))"

text \<open>\<^verbatim>\<open>_get_connection\<close> of both agents: a failed connection is printed and is \<^verbatim>\<open>None\<close>.\<close>

definition get_connection :: "world \<Rightarrow> db_op \<Rightarrow> bool \<times> event list" where
  "get_connection w op =
     (case connect_error w op of
        None \<Rightarrow> (True, [Connect op])
      | Some e \<Rightarrow> (False, [Connect op, Log (ConnectionError e)]))"

section \<open>TicketAnalyzerAgent\<close>

definition ticket_fields :: "string list" where
  "ticket_fields = [''ticket_type'', ''urgency'', ''requires_customer_data'',
                    ''requires_technical_help'', ''customer_sentiment'',
                    ''estimated_resolution_time'']"

text \<open>The fallback analysis of \<^verbatim>\<open>analyze_ticket\<close>.\<close>

definition fallback_analysis :: pydict where
  "fallback_analysis =
     [(''ticket_type'', PStr ''general_inquiry''),
      (''urgency'', PStr ''medium''),
      (''requires_customer_data'', PBool True),
      (''requires_technical_help'', PBool False),
      (''customer_sentiment'', PStr ''neutral''),
      (''estimated_resolution_time'', PStr ''15min'')]"

text \<open>
  \<^verbatim>\<open>_save_ticket_to_db\<close>. Without a connection nothing is saved. On a connection, the
  parameters are read from the analysis first (a missing key or an analysis that is not a
  dictionary raises before the statement runs); every exception is printed, rolled back
  and answered by \<^verbatim>\<open>None\<close>; the connection is closed on every path.
\<close>

definition save_ticket_to_db ::
  "world \<Rightarrow> pyval \<Rightarrow> string option \<Rightarrow> string \<Rightarrow> pyval \<times> event list" where
  "save_ticket_to_db w analysis customer_id incoming_content =
     (case get_connection w OpInsert of
        (False, tc) \<Rightarrow> (PNone, [Log SavingTicket] @ tc @ [Log CouldNotSave])
      | (True, tc) \<Rightarrow>
          (case py_getitems analysis ticket_fields of
             Inl e \<Rightarrow> (PNone, [Log SavingTicket] @ tc @ [Log (SaveError e), Rollback, Close])
           | Inr vs \<Rightarrow>
               (case statement_error w OpInsert of
                  Some m \<Rightarrow>
                    (PNone, [Log SavingTicket] @ tc @
                       [Execute (InsertTicket customer_id vs incoming_content),
                        Log (SaveError (StoreError m)), Rollback, Close])
                | None \<Rightarrow>
                    (PInt (new_ticket_id w), [Log SavingTicket] @ tc @
                       [Execute (InsertTicket customer_id vs incoming_content),
                        Commit, Log (TicketSaved (new_ticket_id w)), Close]))))"

text \<open>
  The fenced-code wrapper: \<^verbatim>\<open>response.strip()[7:-3].strip()\<close> when the stripped response
  starts with the opening fence.
\<close>

definition json_fence :: string where
  "json_fence = ''```json''"

definition strip_fence :: "string \<Rightarrow> string" where
  "strip_fence response =
     (if startswith (py_strip response) json_fence
      then py_strip (drop 7 (take (length (py_strip response) - 3) (py_strip response)))
      else response)"

text \<open>
  The \<^verbatim>\<open>try\<close> block of \<^verbatim>\<open>analyze_ticket\<close>: \<open>None\<close> when it raises (a content that is
  \<^verbatim>\<open>None\<close> has no \<^verbatim>\<open>strip\<close>; the decoder rejects the text).
\<close>

definition parse_analysis :: "world \<Rightarrow> string option \<Rightarrow> pyval option" where
  "parse_analysis w response =
     (case response of
        None \<Rightarrow> None
      | Some r \<Rightarrow> json_loads w (strip_fence r))"

text \<open>
  \<^verbatim>\<open>analyze_ticket\<close>. The bare \<^verbatim>\<open>except\<close> replaces the analysis by the fallback; the
  ticket is saved; \<^verbatim>\<open>analysis['ticket_id'] = ticket_id\<close> stands outside every \<^verbatim>\<open>try\<close>
  and raises TypeError when the decoded JSON is not a dictionary.
\<close>

definition analyze_ticket ::
  "world \<Rightarrow> string \<Rightarrow> string option \<Rightarrow> (exn + pydict) \<times> event list" where
  "analyze_ticket w ticket_content customer_id =
     (let (response, t1) = call_openai w (AnalyzeTicket ticket_content);
          analysis = (case parse_analysis w response of
                        None \<Rightarrow> PDict fallback_analysis
                      | Some a \<Rightarrow> a);
          (ticket_id, t2) = save_ticket_to_db w analysis customer_id ticket_content;
          tr = CallAnalyze ticket_content customer_id # t1 @ t2
      in case analysis of
           PDict d \<Rightarrow> (Inr (py_setitem d ''ticket_id'' ticket_id), tr)
         | _ \<Rightarrow> (Inl TypeError, tr))"

text \<open>
  \<^verbatim>\<open>update_ticket_recommendation\<close>. It returns nothing, so its value here is what it does.
  A falsy ticket id returns at once; a failed connection is printed and returns; an
  exception of the statement is printed and rolled back.
\<close>

definition update_ticket_recommendation ::
  "world \<Rightarrow> pyval \<Rightarrow> string option \<Rightarrow> event list" where
  "update_ticket_recommendation w ticket_id recommended_answer =
     CallUpdate ticket_id recommended_answer #
     (if \<not> truthy ticket_id then []
      else
        (case get_connection w OpUpdate of
           (False, tc) \<Rightarrow> [Log (UpdatingTicket ticket_id)] @ tc @ [Log CouldNotUpdate]
         | (True, tc) \<Rightarrow>
             (case statement_error w OpUpdate of
                Some m \<Rightarrow>
                  [Log (UpdatingTicket ticket_id)] @ tc @
                  [Execute (UpdateTicket ticket_id recommended_answer),
                   Log (UpdateError m), Rollback, Close]
              | None \<Rightarrow>
                  [Log (UpdatingTicket ticket_id)] @ tc @
                  [Execute (UpdateTicket ticket_id recommended_answer),
                   Commit, Log (TicketUpdated ticket_id), Close])))"

section \<open>DatabaseQueryAgent\<close>

definition opt_str :: "string option \<Rightarrow> pyval" where
  "opt_str x = (case x of None \<Rightarrow> PNone | Some s \<Rightarrow> PStr s)"

definition opt_date :: "(nat \<times> nat \<times> nat) option \<Rightarrow> pyval" where
  "opt_date x = (case x of None \<Rightarrow> PNone | Some (y, m, d) \<Rightarrow> PDate y m d)"

definition opt_history :: "string list option \<Rightarrow> pyval" where
  "opt_history x = (case x of None \<Rightarrow> PNone | Some xs \<Rightarrow> PList (map PStr xs))"

text \<open>The row each of the three SELECT statements yields for a stored customer.\<close>

definition select_columns :: "string \<Rightarrow> customer_row \<Rightarrow> pydict" where
  "select_columns query_type r =
     (if query_type = ''billing'' then
        [(''name'', opt_str (cust_name r)),
         (''plan'', opt_str (cust_plan r)),
         (''last_payment'', opt_date (cust_last_payment r)),
         (''status'', PStr ''Active'')]
      else if query_type = ''history'' then
        [(''name'', opt_str (cust_name r)),
         (''support_history'', opt_history (cust_support_history r)),
         (''join_date'', opt_date (cust_join_date r))]
      else
        [(''customer_id'', PStr (cust_id r)),
         (''name'', opt_str (cust_name r)),
         (''email'', opt_str (cust_email r)),
         (''plan'', opt_str (cust_plan r)),
         (''join_date'', opt_date (cust_join_date r)),
         (''last_payment'', opt_date (cust_last_payment r)),
         (''support_history'', opt_history (cust_support_history r))])"

text \<open>\<^verbatim>\<open>cursor.fetchone()\<close> after \<^verbatim>\<open>WHERE customer_id = %s\<close>.\<close>

definition fetchone :: "world \<Rightarrow> string \<Rightarrow> string \<Rightarrow> pydict option" where
  "fetchone w customer_id query_type =
     map_option (select_columns query_type)
       (find (\<lambda>r. cust_id r = customer_id) (customer_support w))"

definition type_name :: "pyval \<Rightarrow> string" where
  "type_name v =
     (case v of
        PNone \<Rightarrow> ''NoneType'' | PBool b \<Rightarrow> ''bool'' | PInt n \<Rightarrow> ''int'' | PStr s \<Rightarrow> ''str''
      | PDate y m d \<Rightarrow> ''datetime.date'' | PList xs \<Rightarrow> ''list'' | PDict kvs \<Rightarrow> ''dict'')"

text \<open>
  \<^verbatim>\<open>if k in customer_data and customer_data[k]: customer_data[k] = customer_data[k].strftime('%Y-%m-%d')\<close>.
  A truthy value that is not a date has no \<^verbatim>\<open>strftime\<close>: \<open>Inl\<close> is the text of the
  AttributeError.
\<close>

definition convert_date :: "string \<Rightarrow> pydict \<Rightarrow> string + pydict" where
  "convert_date k customer_data =
     (case map_of customer_data k of
        None \<Rightarrow> Inr customer_data
      | Some v \<Rightarrow>
          if truthy v then
            (case v of
               PDate y m d \<Rightarrow> Inr (py_setitem customer_data k (PStr (strftime_ymd y m d)))
             | _ \<Rightarrow> Inl ([CHR 0x27] @ type_name v @
                         [CHR 0x27] @ '' object has no attribute '' @
                         [CHR 0x27] @ ''strftime'' @ [CHR 0x27]))
          else Inr customer_data)"

text \<open>\<^verbatim>\<open>if 'support_history' in customer_data and customer_data['support_history'] is None\<close>.\<close>

definition convert_history :: "pydict \<Rightarrow> pydict" where
  "convert_history customer_data =
     (case map_of customer_data ''support_history'' of
        Some PNone \<Rightarrow> py_setitem customer_data ''support_history'' (PList [])
      | _ \<Rightarrow> customer_data)"

text \<open>The \<^verbatim>\<open>if result:\<close> branch: \<open>Inl\<close> is the text of an exception raised inside it.\<close>

definition convert_row :: "pydict \<Rightarrow> string + pydict" where
  "convert_row result =
     (case convert_date ''join_date'' result of
        Inl m \<Rightarrow> Inl m
      | Inr d1 \<Rightarrow>
          (case convert_date ''last_payment'' d1 of
             Inl m \<Rightarrow> Inl m
           | Inr d2 \<Rightarrow> Inr (convert_history d2)))"

definition error_object :: "string \<Rightarrow> pydict" where
  "error_object msg = [(''error'', PStr msg)]"

text \<open>
  \<^verbatim>\<open>query_customer_info\<close>. The format check comes before any store call; a failed
  connection has its own fixed message; inside the \<^verbatim>\<open>try\<close> every exception becomes an
  error object carrying its text; the connection is closed on every path.
\<close>

definition query_customer_info ::
  "world \<Rightarrow> string option \<Rightarrow> string \<Rightarrow> pydict \<times> event list" where
  "query_customer_info w customer_id query_type =
     (let t0 = [CallLookup customer_id query_type, Log (QueryingCustomer customer_id)] in
      if \<not> known customer_id \<or> \<not> startswith (str_of_id customer_id) ''CUST'' then
        (error_object (''Invalid customer ID format: '' @ str_of_id customer_id @
                       ''. Expected format: CUSTXXX''), t0)
      else
        (case get_connection w OpSelect of
           (False, tc) \<Rightarrow> (error_object ''Database connection failed'', t0 @ tc)
         | (True, tc) \<Rightarrow>
             (let t1 = t0 @ tc @ [Execute (SelectCustomer query_type (str_of_id customer_id))] in
              case statement_error w OpSelect of
                Some m \<Rightarrow>
                  (error_object (''Database query failed: '' @ m),
                   t1 @ [Log (QueryError m), Close])
              | None \<Rightarrow>
                  (case fetchone w (str_of_id customer_id) query_type of
                     None \<Rightarrow>
                       (error_object (''Customer '' @ str_of_id customer_id @
                                      '' not found in database''), t1 @ [Close])
                   | Some result \<Rightarrow>
                       if result = [] then
                         (error_object (''Customer '' @ str_of_id customer_id @
                                        '' not found in database''), t1 @ [Close])
                       else
                         (case convert_row result of
                            Inl m \<Rightarrow>
                              (error_object (''Database query failed: '' @ m),
                               t1 @ [Log (QueryError m), Close])
                          | Inr customer_data \<Rightarrow> (customer_data, t1 @ [Close]))))))"

section \<open>TechnicalProblemSolverAgent and EmailReplyAgent\<close>

text \<open>The truth value of a string or \<^verbatim>\<open>None\<close>, and of a dictionary or \<^verbatim>\<open>None\<close>.\<close>

definition truthy_text :: "string option \<Rightarrow> bool" where
  "truthy_text x = (case x of None \<Rightarrow> False | Some s \<Rightarrow> s \<noteq> [])"

definition truthy_info :: "pydict option \<Rightarrow> bool" where
  "truthy_info x = (case x of None \<Rightarrow> False | Some d \<Rightarrow> d \<noteq> [])"

text \<open>
  \<^verbatim>\<open>solve_technical_issue\<close>: the customer info goes into the prompt when it is truthy,
  the placeholder \<^verbatim>\<open>Not available\<close> otherwise.
\<close>

definition solve_technical_issue ::
  "world \<Rightarrow> string \<Rightarrow> pydict option \<Rightarrow> string option \<times> event list" where
  "solve_technical_issue w ticket_content customer_info =
     (let ctx = (if truthy_info customer_info then customer_info else None);
          (r, t) = call_openai w (SolveIssue ticket_content ctx)
      in (r, CallSolve ticket_content customer_info # t))"

text \<open>\<^verbatim>\<open>if customer_info and k in customer_info: context_info.append(... customer_info[k] ...)\<close>.\<close>

definition context_entry ::
  "(pyval \<Rightarrow> context_item) \<Rightarrow> pydict option \<Rightarrow> string \<Rightarrow> context_item list" where
  "context_entry mk customer_info k =
     (case customer_info of
        None \<Rightarrow> []
      | Some d \<Rightarrow>
          if d = [] then []
          else (case map_of d k of None \<Rightarrow> [] | Some v \<Rightarrow> [mk v]))"

definition compose_reply ::
  "world \<Rightarrow> pydict \<Rightarrow> pydict option \<Rightarrow> string option \<Rightarrow> string \<Rightarrow> string option \<times> event list" where
  "compose_reply w ticket_analysis customer_info technical_solution ticket_content =
     (let sentiment = py_get ticket_analysis ''customer_sentiment'' (PStr ''neutral'');
          urgency = py_get ticket_analysis ''urgency'' (PStr ''medium'');
          context_info =
            context_entry CtxCustomer customer_info ''name'' @
            context_entry CtxPlan customer_info ''plan'' @
            (case technical_solution of
               None \<Rightarrow> []
             | Some s \<Rightarrow> if s = [] then [] else [CtxSolution s]);
          (r, t) = call_openai w (ComposeReply sentiment urgency context_info ticket_content)
      in (r, CallCompose # t))"

section \<open>IntelligentSupportOrchestrator\<close>

text \<open>
  \<^verbatim>\<open>extract_customer_id\<close>. A content that is \<^verbatim>\<open>None\<close> has no \<^verbatim>\<open>strip\<close>; the exception is
  caught and answered by \<^verbatim>\<open>None\<close>. The answer is validated after stripping.
\<close>

definition extract_customer_id :: "world \<Rightarrow> string \<Rightarrow> string option \<times> event list" where
  "extract_customer_id w ticket_content =
     (let (response, t) = call_openai w (ExtractId ticket_content);
          t0 = CallExtract ticket_content # Log ExtractingId # t
      in case response of
           None \<Rightarrow> (None, t0 @ [Log ExtractionFailed])
         | Some r \<Rightarrow>
             (let extracted_id = py_strip r in
              if extracted_id = ''NONE'' \<or> \<not> startswith extracted_id ''CUST''
              then (None, t0 @ [Log NoValidId])
              else (Some extracted_id, t0 @ [Log (IdExtracted extracted_id)])))"

text \<open>
  A computation that may raise, with the effects it had until then; \<open>and_then\<close> runs the
  next statement unless the previous one raised.
\<close>

type_synonym 'a run = "(exn + 'a) \<times> event list"

definition and_then :: "'a run \<Rightarrow> ('a \<Rightarrow> 'b run) \<Rightarrow> 'b run" where
  "and_then m f =
     (case m of
        (Inl e, t) \<Rightarrow> (Inl e, t)
      | (Inr x, t) \<Rightarrow> (case f x of (r, t') \<Rightarrow> (r, t @ t')))"

definition subscript :: "pydict \<Rightarrow> string \<Rightarrow> pyval run" where
  "subscript d k = (py_getitem (PDict d) k, [])"

definition no_raise :: "'a \<times> event list \<Rightarrow> 'a run" where
  "no_raise m = (Inr (fst m), snd m)"

record routing_result =
  final_reply :: "string option"
  analysis :: pydict
  agents_used :: "string list"
  customer_info :: "pydict option"
  technical_solution :: "string option"

text \<open>\<^verbatim>\<open>if not customer_id: customer_id = self.extract_customer_id(ticket_content)\<close>.\<close>

definition identify :: "world \<Rightarrow> string \<Rightarrow> string option \<Rightarrow> string option \<times> event list" where
  "identify w ticket_content customer_id =
     (if \<not> known customer_id then extract_customer_id w ticket_content
      else (customer_id, []))"

text \<open>The five subscripts of the printed analysis results, in their order.\<close>

definition print_analysis :: "pydict \<Rightarrow> unit run" where
  "print_analysis ticket_analysis =
     (case py_getitems (PDict ticket_analysis)
             [''ticket_type'', ''urgency'', ''requires_customer_data'',
              ''requires_technical_help'', ''customer_sentiment''] of
        Inl e \<Rightarrow> (Inl e, [])
      | Inr vs \<Rightarrow> (Inr (), []))"

text \<open>Step 2 of the source: the conditional database query.\<close>

definition select_query_type :: "pyval \<Rightarrow> string" where
  "select_query_type ticket_type =
     (if ticket_type = PStr ''billing'' then ''billing''
      else if ticket_type = PStr ''account'' then ''history''
      else ''full'')"

definition gather_customer_data ::
  "world \<Rightarrow> pydict \<Rightarrow> string option \<Rightarrow> pydict option run" where
  "gather_customer_data w ticket_analysis customer_id =
     and_then (subscript ticket_analysis ''requires_customer_data'') (\<lambda>rcd.
       if truthy rcd \<and> known customer_id then
         and_then (subscript ticket_analysis ''ticket_type'') (\<lambda>ticket_type.
           no_raise (case query_customer_info w customer_id (select_query_type ticket_type) of
                       (info, t) \<Rightarrow> (Some info, t)))
       else if truthy rcd then (Inr None, [])
       else (Inr None, []))"

text \<open>Step 3 of the source: the conditional technical problem solving.\<close>

definition solve_step ::
  "world \<Rightarrow> pydict \<Rightarrow> string \<Rightarrow> pydict option \<Rightarrow> string option run" where
  "solve_step w ticket_analysis ticket_content info =
     and_then (subscript ticket_analysis ''requires_technical_help'') (\<lambda>rth.
       if truthy rth then
         and_then (subscript ticket_analysis ''urgency'') (\<lambda>urgency.
           no_raise (solve_technical_issue w ticket_content info))
       else (Inr None, []))"

text \<open>Step 4 of the source: the reply, after the two subscripts of its narration.\<close>

definition compose_step ::
  "world \<Rightarrow> pydict \<Rightarrow> pydict option \<Rightarrow> string option \<Rightarrow> string \<Rightarrow> string option run" where
  "compose_step w ticket_analysis info solution ticket_content =
     and_then (subscript ticket_analysis ''urgency'') (\<lambda>urgency.
     and_then (subscript ticket_analysis ''customer_sentiment'') (\<lambda>sentiment.
       no_raise (compose_reply w ticket_analysis info solution ticket_content)))"

text \<open>\<^verbatim>\<open>if ticket_analysis.get('ticket_id'): update_ticket_recommendation(...)\<close>.\<close>

definition persist_step :: "world \<Rightarrow> pydict \<Rightarrow> string option \<Rightarrow> unit run" where
  "persist_step w ticket_analysis reply =
     (if truthy (py_get ticket_analysis ''ticket_id'' PNone) then
        and_then (subscript ticket_analysis ''ticket_id'') (\<lambda>ticket_id.
          (Inr (), update_ticket_recommendation w ticket_id reply))
      else (Inr (), []))"

text \<open>The orchestration summary.\<close>

definition summarize :: "pydict option \<Rightarrow> string option \<Rightarrow> string list" where
  "summarize info solution =
     [''TicketAnalyzer''] @
     (if truthy_info info then [''DatabaseAgent''] else []) @
     (if truthy_text solution then [''TechSolver''] else []) @
     [''ReplyAgent'']"

definition process_support_ticket ::
  "world \<Rightarrow> string \<Rightarrow> string option \<Rightarrow> routing_result run" where
  "process_support_ticket w ticket_content customer_id0 =
     and_then (no_raise (identify w ticket_content customer_id0)) (\<lambda>customer_id.
     and_then (analyze_ticket w ticket_content customer_id) (\<lambda>ticket_analysis.
     and_then (print_analysis ticket_analysis) (\<lambda>u.
     and_then (gather_customer_data w ticket_analysis customer_id) (\<lambda>info.
     and_then (solve_step w ticket_analysis ticket_content info) (\<lambda>solution.
     and_then (compose_step w ticket_analysis info solution ticket_content) (\<lambda>reply.
     and_then (persist_step w ticket_analysis reply) (\<lambda>u'.
     and_then (subscript ticket_analysis ''estimated_resolution_time'') (\<lambda>ert.
       (Inr \<lparr> final_reply = reply,
              analysis = ticket_analysis,
              agents_used = summarize info solution,
              customer_info = info,
              technical_solution = solution \<rparr>, [])))))))))"

section \<open>Example worlds\<close>

text \<open>
  Two classifications as the Completion Service words them, and the decoder on these two
  texts; no other text of the examples is JSON.
\<close>

definition billing_json :: string where
  \<open>billing_json = ''{"ticket_type": "billing", "urgency": "low", "requires_customer_data": true, "requires_technical_help": false, "customer_sentiment": "neutral", "estimated_resolution_time": "5min"}''\<close>

definition billing_analysis :: pydict where
  "billing_analysis =
     [(''ticket_type'', PStr ''billing''),
      (''urgency'', PStr ''low''),
      (''requires_customer_data'', PBool True),
      (''requires_technical_help'', PBool False),
      (''customer_sentiment'', PStr ''neutral''),
      (''estimated_resolution_time'', PStr ''5min'')]"

definition technical_json :: string where
  \<open>technical_json = ''{"ticket_type": "technical", "urgency": "critical", "requires_customer_data": false, "requires_technical_help": true, "customer_sentiment": "frustrated", "estimated_resolution_time": "1hour+"}''\<close>

definition technical_analysis :: pydict where
  "technical_analysis =
     [(''ticket_type'', PStr ''technical''),
      (''urgency'', PStr ''critical''),
      (''requires_customer_data'', PBool False),
      (''requires_technical_help'', PBool True),
      (''customer_sentiment'', PStr ''frustrated''),
      (''estimated_resolution_time'', PStr ''1hour+'')]"

definition demo_json_loads :: "string \<Rightarrow> pyval option" where
  "demo_json_loads s =
     (if s = billing_json then Some (PDict billing_analysis)
      else if s = technical_json then Some (PDict technical_analysis)
      else None)"

definition sarah :: customer_row where
  "sarah = \<lparr> cust_id = ''CUST001'', cust_name = Some ''Sarah'',
             cust_email = Some ''sarah@example.com'', cust_plan = Some ''Premium'',
             cust_join_date = Some (2023, 1, 15), cust_last_payment = Some (2024, 9, 1),
             cust_support_history = None \<rparr>"

text \<open>
  A service that classifies every ticket as a billing inquiry, finds the id
  \<^verbatim>\<open>CUST001\<close> in every ticket and answers every other request with a fixed text.
\<close>

fun billing_llm :: "request \<Rightarrow> llm_outcome" where
  "billing_llm (AnalyzeTicket t) = Returns (Some billing_json)"
| "billing_llm (ExtractId t) = Returns (Some ''CUST001'')"
| "billing_llm (SolveIssue t c) = Returns (Some ''Restart the client.'')"
| "billing_llm (ComposeReply s u c t) = Returns (Some ''Guten Tag'')"

text \<open>
  A service that classifies every ticket as a technical problem, finds no id, and drafts
  an empty solution.
\<close>

fun technical_llm :: "request \<Rightarrow> llm_outcome" where
  "technical_llm (AnalyzeTicket t) = Returns (Some technical_json)"
| "technical_llm (ExtractId t) = Returns (Some ''NONE'')"
| "technical_llm (SolveIssue t c) = Returns (Some [])"
| "technical_llm (ComposeReply s u c t) = Returns (Some ''Guten Tag'')"

text \<open>A store that works and knows one customer; the next ticket key is 42.\<close>

definition demo_world :: world where
  "demo_world =
     \<lparr> llm = billing_llm,
       json_loads = demo_json_loads,
       connect_error = (\<lambda>op. None),
       statement_error = (\<lambda>op. None),
       new_ticket_id = 42,
       customer_support = [sarah] \<rparr>"

section \<open>Reading a trace\<close>

text \<open>The customer lookups of a trace, with their arguments.\<close>

fun lookup_calls :: "event list \<Rightarrow> (string option \<times> string) list" where
  "lookup_calls [] = []"
| "lookup_calls (CallLookup cid qt # es) = (cid, qt) # lookup_calls es"
| "lookup_calls (e # es) = lookup_calls es"

text \<open>
  The events of attaching a reply: the entry of \<^verbatim>\<open>update_ticket_recommendation\<close>, its
  connection and its UPDATE statement.
\<close>

fun is_update_event :: "event \<Rightarrow> bool" where
  "is_update_event (CallUpdate tid answer) = True"
| "is_update_event (Connect OpUpdate) = True"
| "is_update_event (Execute (UpdateTicket tid answer)) = True"
| "is_update_event e = False"

section \<open>Dictionaries and traces\<close>

lemma map_of_py_setitem:
  "map_of (py_setitem d k v) k' = (if k' = k then Some v else map_of d k')"
  by (induction d k v rule: py_setitem.induct) auto

lemma py_setitem_not_Nil: "py_setitem d k v \<noteq> []"
  by (cases d) (auto split: if_splits)

lemma lookup_calls_append: "lookup_calls (xs @ ys) = lookup_calls xs @ lookup_calls ys"
  by (induction xs rule: lookup_calls.induct) auto

text \<open>A sequence that returns has run each of its statements to its end.\<close>

lemma and_then_Inr:
  assumes "and_then m f = (Inr y, tr)"
  obtains x t1 t2 where "m = (Inr x, t1)" and "f x = (Inr y, t2)" and "tr = t1 @ t2"
  using assms by (auto simp: and_then_def split: prod.splits sum.splits)

section \<open>No agent but the lookup looks a customer up\<close>

lemma call_openai_trace: "snd (call_openai w rq) = [Completion rq]"
  by (simp add: call_openai_def split: llm_outcome.splits)

lemma get_connection_lookups: "lookup_calls (snd (get_connection w op)) = []"
  by (simp add: get_connection_def split: option.splits)

lemma extract_lookups: "lookup_calls (snd (extract_customer_id w t)) = []"
  using call_openai_trace [of w "ExtractId t"]
  by (auto simp: extract_customer_id_def Let_def lookup_calls_append split: prod.splits option.splits)

lemma identify_lookups: "lookup_calls (snd (identify w t c)) = []"
  by (simp add: identify_def extract_lookups)

lemma save_lookups: "lookup_calls (snd (save_ticket_to_db w a c t)) = []"
  using get_connection_lookups [of w OpInsert]
  by (auto simp: save_ticket_to_db_def lookup_calls_append split: prod.splits bool.splits sum.splits option.splits)

lemma analyze_lookups: "lookup_calls (snd (analyze_ticket w t c)) = []"
  using call_openai_trace [of w "AnalyzeTicket t"] save_lookups
  by (simp add: analyze_ticket_def Let_def case_prod_unfold lookup_calls_append split: pyval.splits)


lemma query_lookups: "lookup_calls (snd (query_customer_info w c q)) = [(c, q)]"
  using get_connection_lookups [of w OpSelect]
  by (simp add: query_customer_info_def Let_def case_prod_unfold lookup_calls_append
           split: bool.splits sum.splits option.splits)

lemma solve_lookups: "lookup_calls (snd (solve_technical_issue w t i)) = []"
  by (simp add: solve_technical_issue_def Let_def case_prod_unfold call_openai_trace)

lemma compose_lookups: "lookup_calls (snd (compose_reply w a i s t)) = []"
  by (simp add: compose_reply_def Let_def case_prod_unfold call_openai_trace)

lemma update_lookups: "lookup_calls (update_ticket_recommendation w tid r) = []"
  using get_connection_lookups [of w OpUpdate]
  by (simp add: update_ticket_recommendation_def case_prod_unfold lookup_calls_append
           split: bool.splits option.splits)

section \<open>The routing procedure, statement by statement\<close>

lemma subscript_Inr:
  "subscript d k = (Inr v, t) \<longleftrightarrow> map_of d k = Some v \<and> t = []"
  by (auto simp: subscript_def split: option.splits)

lemma gather_Inr:
  assumes "gather_customer_data w a cid = (Inr info, t)"
  shows "\<exists>rcd. map_of a ''requires_customer_data'' = Some rcd \<and>
           (if truthy rcd \<and> known cid
            then \<exists>ty. map_of a ''ticket_type'' = Some ty \<and>
                   info = Some (fst (query_customer_info w cid (select_query_type ty))) \<and>
                   lookup_calls t = [(cid, select_query_type ty)]
            else info = None \<and> t = [])"
proof -
  from assms obtain rcd t1 t2 where
    r: "subscript a ''requires_customer_data'' = (Inr rcd, t1)" and
    k: "(if truthy rcd \<and> known cid then
          and_then (subscript a ''ticket_type'') (\<lambda>ticket_type.
            no_raise (case query_customer_info w cid (select_query_type ticket_type) of
                        (info, t) \<Rightarrow> (Some info, t)))
         else if truthy rcd then (Inr None, [])
         else (Inr None, [])) = (Inr info, t2)" and
    t: "t = t1 @ t2"
    unfolding gather_customer_data_def by (rule and_then_Inr)
  from r have m: "map_of a ''requires_customer_data'' = Some rcd" and t1: "t1 = []"
    by (simp_all add: subscript_Inr)
  show ?thesis
  proof (cases "truthy rcd \<and> known cid")
    case True
    with k obtain ty u1 u2 where
      s: "subscript a ''ticket_type'' = (Inr ty, u1)" and
      q: "no_raise (case query_customer_info w cid (select_query_type ty) of
                      (info, t) \<Rightarrow> (Some info, t)) = (Inr info, u2)" and
      u: "t2 = u1 @ u2"
      by (auto elim: and_then_Inr)
    from s have mt: "map_of a ''ticket_type'' = Some ty" and u1: "u1 = []"
      by (simp_all add: subscript_Inr)
    from q have "info = Some (fst (query_customer_info w cid (select_query_type ty)))"
      and "u2 = snd (query_customer_info w cid (select_query_type ty))"
      by (auto simp: no_raise_def case_prod_unfold)
    with True m mt t t1 u u1 show ?thesis
      by (simp add: query_lookups)
  next
    case False
    with k have "info = None" and "t2 = []" by (auto split: if_splits)
    with False m t t1 show ?thesis by simp
  qed
qed

lemma solve_step_lookups:
  "solve_step w a tc info = (r, t) \<Longrightarrow> lookup_calls t = []"
  by (auto simp: solve_step_def and_then_def subscript_def no_raise_def solve_lookups
           split: sum.splits prod.splits if_splits option.splits)

lemma compose_step_lookups:
  "compose_step w a info sol tc = (r, t) \<Longrightarrow> lookup_calls t = []"
  by (auto simp: compose_step_def and_then_def subscript_def no_raise_def compose_lookups
           split: sum.splits prod.splits if_splits option.splits)

lemma persist_step_lookups:
  "persist_step w a reply = (r, t) \<Longrightarrow> lookup_calls t = []"
  by (auto simp: persist_step_def and_then_def subscript_def update_lookups
           split: sum.splits prod.splits if_splits option.splits)

lemma process_Inr:
  assumes "process_support_ticket w tc c0 = (Inr res, tr)"
  obtains a t0 t1 info t2 sol t3 reply t4 t5 where
    "analyze_ticket w tc (fst (identify w tc c0)) = (Inr a, t1)"
    "t0 = snd (identify w tc c0)"
    "print_analysis a = (Inr (), [])"
    "gather_customer_data w a (fst (identify w tc c0)) = (Inr info, t2)"
    "solve_step w a tc info = (Inr sol, t3)"
    "compose_step w a info sol tc = (Inr reply, t4)"
    "persist_step w a reply = (Inr (), t5)"
    "map_of a ''estimated_resolution_time'' \<noteq> None"
    "res = \<lparr> final_reply = reply, analysis = a, agents_used = summarize info sol,
             customer_info = info, technical_solution = sol \<rparr>"
    "tr = t0 @ t1 @ t2 @ t3 @ t4 @ t5"
proof -
  from assms obtain cid t0 r0 where
    i: "no_raise (identify w tc c0) = (Inr cid, t0)" and
    k0: "and_then (analyze_ticket w tc cid) (\<lambda>ticket_analysis.
     and_then (print_analysis ticket_analysis) (\<lambda>u.
     and_then (gather_customer_data w ticket_analysis cid) (\<lambda>info.
     and_then (solve_step w ticket_analysis tc info) (\<lambda>solution.
     and_then (compose_step w ticket_analysis info solution tc) (\<lambda>reply.
     and_then (persist_step w ticket_analysis reply) (\<lambda>u'.
     and_then (subscript ticket_analysis ''estimated_resolution_time'') (\<lambda>ert.
       (Inr \<lparr> final_reply = reply,
              analysis = ticket_analysis,
              agents_used = summarize info solution,
              customer_info = info,
              technical_solution = solution \<rparr>, [])))))))) = (Inr res, r0)" and
    tr0: "tr = t0 @ r0"
    unfolding process_support_ticket_def by (rule and_then_Inr)
  from i have cid: "cid = fst (identify w tc c0)" and t0: "t0 = snd (identify w tc c0)"
    by (auto simp: no_raise_def)
  from k0 obtain a t1 r1 where
    a: "analyze_ticket w tc cid = (Inr a, t1)" and
    k1: "and_then (print_analysis a) (\<lambda>u.
     and_then (gather_customer_data w a cid) (\<lambda>info.
     and_then (solve_step w a tc info) (\<lambda>solution.
     and_then (compose_step w a info solution tc) (\<lambda>reply.
     and_then (persist_step w a reply) (\<lambda>u'.
     and_then (subscript a ''estimated_resolution_time'') (\<lambda>ert.
       (Inr \<lparr> final_reply = reply,
              analysis = a,
              agents_used = summarize info solution,
              customer_info = info,
              technical_solution = solution \<rparr>, []))))))) = (Inr res, r1)" and
    tr1: "r0 = t1 @ r1"
    by (rule and_then_Inr)
  from k1 obtain u tp r2 where
    p: "print_analysis a = (Inr u, tp)" and
    k2: "and_then (gather_customer_data w a cid) (\<lambda>info.
     and_then (solve_step w a tc info) (\<lambda>solution.
     and_then (compose_step w a info solution tc) (\<lambda>reply.
     and_then (persist_step w a reply) (\<lambda>u'.
     and_then (subscript a ''estimated_resolution_time'') (\<lambda>ert.
       (Inr \<lparr> final_reply = reply,
              analysis = a,
              agents_used = summarize info solution,
              customer_info = info,
              technical_solution = solution \<rparr>, [])))))) = (Inr res, r2)" and
    tr2: "r1 = tp @ r2"
    by (rule and_then_Inr)
  from p have tp: "tp = []"
    by (auto simp: print_analysis_def split: sum.splits)
  from k2 obtain info t2 r3 where
    g: "gather_customer_data w a cid = (Inr info, t2)" and
    k3: "and_then (solve_step w a tc info) (\<lambda>solution.
     and_then (compose_step w a info solution tc) (\<lambda>reply.
     and_then (persist_step w a reply) (\<lambda>u'.
     and_then (subscript a ''estimated_resolution_time'') (\<lambda>ert.
       (Inr \<lparr> final_reply = reply,
              analysis = a,
              agents_used = summarize info solution,
              customer_info = info,
              technical_solution = solution \<rparr>, []))))) = (Inr res, r3)" and
    tr3: "r2 = t2 @ r3"
    by (rule and_then_Inr)
  from k3 obtain sol t3 r4 where
    s: "solve_step w a tc info = (Inr sol, t3)" and
    k4: "and_then (compose_step w a info sol tc) (\<lambda>reply.
     and_then (persist_step w a reply) (\<lambda>u'.
     and_then (subscript a ''estimated_resolution_time'') (\<lambda>ert.
       (Inr \<lparr> final_reply = reply,
              analysis = a,
              agents_used = summarize info sol,
              customer_info = info,
              technical_solution = sol \<rparr>, [])))) = (Inr res, r4)" and
    tr4: "r3 = t3 @ r4"
    by (rule and_then_Inr)
  from k4 obtain reply t4 r5 where
    c: "compose_step w a info sol tc = (Inr reply, t4)" and
    k5: "and_then (persist_step w a reply) (\<lambda>u'.
     and_then (subscript a ''estimated_resolution_time'') (\<lambda>ert.
       (Inr \<lparr> final_reply = reply,
              analysis = a,
              agents_used = summarize info sol,
              customer_info = info,
              technical_solution = sol \<rparr>, []))) = (Inr res, r5)" and
    tr5: "r4 = t4 @ r5"
    by (rule and_then_Inr)
  from k5 obtain u' t5 r6 where
    ps: "persist_step w a reply = (Inr u', t5)" and
    k6: "and_then (subscript a ''estimated_resolution_time'') (\<lambda>ert.
       (Inr \<lparr> final_reply = reply,
              analysis = a,
              agents_used = summarize info sol,
              customer_info = info,
              technical_solution = sol \<rparr>, [])) = (Inr res, r6)" and
    tr6: "r5 = t5 @ r6"
    by (rule and_then_Inr)
  from k6 obtain ert t6 t7 where
    e: "subscript a ''estimated_resolution_time'' = (Inr ert, t6)" and
    rr: "(Inr \<lparr> final_reply = reply,
              analysis = a,
              agents_used = summarize info sol,
              customer_info = info,
              technical_solution = sol \<rparr>, []) = (Inr res, t7)" and
    tr7: "r6 = t6 @ t7"
    by (rule and_then_Inr) blast
  from e have "map_of a ''estimated_resolution_time'' \<noteq> None" and t6: "t6 = []"
    by (simp_all add: subscript_Inr)
  moreover from rr have "res = \<lparr> final_reply = reply, analysis = a,
      agents_used = summarize info sol, customer_info = info, technical_solution = sol \<rparr>"
    and t7: "t7 = []" by simp_all
  moreover have "tr = t0 @ t1 @ t2 @ t3 @ t4 @ t5"
    using tr0 tr1 tr2 tr3 tr4 tr5 tr6 tr7 tp t6 t7 by simp
  ultimately show thesis
    using that [of a t1 t0 info t2 sol t3 reply t4 t5] a p tp g s c ps cid t0 by simp
qed


section \<open>An example run\<close>

text \<open>The billing inquiry of the demonstration, in the example world.\<close>

lemma demo_billing_run:
  "fst (process_support_ticket demo_world ''Customer ID: CUST001'' None) =
     Inr \<lparr> final_reply = Some ''Guten Tag'',
           analysis = billing_analysis @ [(''ticket_id'', PInt 42)],
           agents_used = [''TicketAnalyzer'', ''DatabaseAgent'', ''ReplyAgent''],
           customer_info = Some [(''name'', PStr ''Sarah''), (''plan'', PStr ''Premium''),
                                 (''last_payment'', PStr ''2024-09-01''),
                                 (''status'', PStr ''Active'')],
           technical_solution = None \<rparr>"
  by code_simp

section \<open>Routing of the customer lookup\<close>



section \<open>The classifier's fallback\<close>

text \<open>Stripping keeps a first character that is not white space.\<close>

lemma dropWhile_snoc_keep:
  "\<not> P c \<Longrightarrow> \<exists>ys. dropWhile P (xs @ [c]) = ys @ [c]"
  by (induction xs) auto

lemma py_strip_keeps_head:
  assumes "\<not> is_space c"
  shows "\<exists>ys. py_strip (c # s) = c # ys"
proof -
  have "\<exists>ys. dropWhile is_space (rev s @ [c]) = ys @ [c]"
    using assms by (rule dropWhile_snoc_keep)
  then obtain ys where ys: "dropWhile is_space (rev s @ [c]) = ys @ [c]" ..
  have "py_strip (c # s) = rev (dropWhile is_space (rev s @ [c]))"
    unfolding py_strip_def using assms by simp
  also have "\<dots> = c # rev ys"
    unfolding ys by simp
  finally show ?thesis by blast
qed



















section \<open>What a successful lookup returns\<close>

lemma convert_row_billing:
  "convert_row (select_columns ''billing'' r) =
     Inr [(''name'', opt_str (cust_name r)),
          (''plan'', opt_str (cust_plan r)),
          (''last_payment'',
             case cust_last_payment r of
               None \<Rightarrow> PNone
             | Some (y, m, d) \<Rightarrow> PStr (strftime_ymd y m d)),
          (''status'', PStr ''Active'')]"
  by (simp add: convert_row_def convert_date_def convert_history_def select_columns_def
        opt_date_def split: option.splits)

lemma convert_row_history:
  "convert_row (select_columns ''history'' r) =
     Inr [(''name'', opt_str (cust_name r)),
          (''support_history'',
             case cust_support_history r of
               None \<Rightarrow> PList []
             | Some xs \<Rightarrow> PList (map PStr xs)),
          (''join_date'',
             case cust_join_date r of
               None \<Rightarrow> PNone
             | Some (y, m, d) \<Rightarrow> PStr (strftime_ymd y m d))]"
  by (simp add: convert_row_def convert_date_def convert_history_def select_columns_def
        opt_date_def opt_history_def split: option.splits)

lemma convert_row_full:
  assumes "qt \<noteq> ''billing''" and "qt \<noteq> ''history''"
  shows "convert_row (select_columns qt r) =
     Inr [(''customer_id'', PStr (cust_id r)),
          (''name'', opt_str (cust_name r)),
          (''email'', opt_str (cust_email r)),
          (''plan'', opt_str (cust_plan r)),
          (''join_date'',
             case cust_join_date r of
               None \<Rightarrow> PNone
             | Some (y, m, d) \<Rightarrow> PStr (strftime_ymd y m d)),
          (''last_payment'',
             case cust_last_payment r of
               None \<Rightarrow> PNone
             | Some (y, m, d) \<Rightarrow> PStr (strftime_ymd y m d)),
          (''support_history'',
             case cust_support_history r of
               None \<Rightarrow> PList []
             | Some xs \<Rightarrow> PList (map PStr xs))]"
  using assms
  by (simp add: convert_row_def convert_date_def convert_history_def select_columns_def
        opt_date_def opt_history_def split: option.splits)

lemma select_columns_not_Nil: "select_columns qt r \<noteq> []"
  by (simp add: select_columns_def)

lemma query_found:
  assumes "c \<noteq> []" and "startswith c ''CUST''"
    and "connect_error w OpSelect = None" and "statement_error w OpSelect = None"
    and "find (\<lambda>r. cust_id r = c) (customer_support w) = Some r"
    and "convert_row (select_columns qt r) = Inr d"
  shows "fst (query_customer_info w (Some c) qt) = d"
  using assms
  by (simp add: query_customer_info_def Let_def known_def str_of_id_def get_connection_def
        fetchone_def select_columns_not_Nil)


lemma not_date_opt_str: "\<not> is_date (opt_str x)"
  by (cases x) (simp_all add: opt_str_def)

text \<open>
  Claim C10. Every billing-scope lookup that finds a matching row (a well-formed id, a
  connection, a statement that runs, a stored customer) returns a record, not an error
  object, whose \<^verbatim>\<open>status\<close> is the constant \<^verbatim>\<open>Active\<close>, whatever the row \<open>r\<close> holds.
\<close>

theorem billing_lookup_status_is_active:
  assumes "c \<noteq> []" and "startswith c ''CUST''"
    and "connect_error w OpSelect = None" and "statement_error w OpSelect = None"
    and "find (\<lambda>r. cust_id r = c) (customer_support w) = Some r"
  shows "map_of (fst (query_customer_info w (Some c) ''billing'')) ''status'' =
           Some (PStr ''Active'') \<and>
         map_of (fst (query_customer_info w (Some c) ''billing'')) ''error'' = None"
proof -
  note found = query_found [OF assms convert_row_billing]
  show ?thesis unfolding found by simp
qed

theorem billing_lookup_status_is_active_witness:
  "map_of (fst (query_customer_info demo_world (Some ''CUST001'') ''billing'')) ''status'' =
     Some (PStr ''Active'')"
proof -
  have "map_of (fst (query_customer_info demo_world (Some ''CUST001'') ''billing'')) ''status'' =
           Some (PStr ''Active'') \<and>
        map_of (fst (query_customer_info demo_world (Some ''CUST001'') ''billing'')) ''error'' =
           None"
    by (rule billing_lookup_status_is_active [where r = sarah])
       (simp_all add: demo_world_def sarah_def startswith_def)
  then show ?thesis ..
qed

subsection \<open>The text of a date\<close>

lemma is_digit_digit_char: "is_digit (digit_char n)"
proof -
  have "n mod 10 < length ''0123456789''" by simp
  then have "''0123456789'' ! (n mod 10) \<in> set ''0123456789''" by (rule nth_mem)
  then show ?thesis by (simp only: is_digit_def digit_char_def)
qed

lemma digit_val_below_ten:
  assumes "k < 10"
  shows "digit_val (''0123456789'' ! k) = k"
proof -
  from assms have "k = 0 \<or> k = 1 \<or> k = 2 \<or> k = 3 \<or> k = 4 \<or> k = 5 \<or> k = 6 \<or> k = 7 \<or>
    k = 8 \<or> k = 9"
    by arith
  then show ?thesis
    unfolding digit_val_def by (elim disjE) simp_all
qed

lemma digit_val_digit_char: "digit_val (digit_char n) = n mod 10"
  unfolding digit_char_def by (rule digit_val_below_ten) simp

lemma decimal_small: "n < 10 \<Longrightarrow> decimal n = [digit_char n]"
  by (subst decimal.simps) simp

lemma decimal_step: "10 \<le> n \<Longrightarrow> decimal n = decimal (n div 10) @ [digit_char n]"
  by (subst decimal.simps) simp

lemma nat_of_digits_snoc:
  "nat_of_digits (s @ [c]) = 10 * nat_of_digits s + digit_val c"
  by (simp add: nat_of_digits_def)

lemma nat_of_digits_decimal: "nat_of_digits (decimal n) = n"
proof (induction n rule: decimal.induct)
  case (1 n)
  show ?case
  proof (cases "n < 10")
    case True
    then show ?thesis
      by (simp add: decimal_small nat_of_digits_def digit_val_digit_char)
  next
    case False
    with "1.IH" have "nat_of_digits (decimal (n div 10)) = n div 10" by simp
    with False show ?thesis
      by (simp add: decimal_step nat_of_digits_snoc digit_val_digit_char)
  qed
qed

lemma decimal_all_digit: "list_all is_digit (decimal n)"
proof (induction n rule: decimal.induct)
  case (1 n)
  show ?case
  proof (cases "n < 10")
    case True
    then show ?thesis by (simp add: decimal_small is_digit_digit_char)
  next
    case False
    with "1.IH" have "list_all is_digit (decimal (n div 10))" by simp
    with False show ?thesis by (simp add: decimal_step is_digit_digit_char)
  qed
qed

lemma length_decimal_2: "10 \<le> n \<Longrightarrow> n < 100 \<Longrightarrow> length (decimal n) = 2"
  by (simp add: decimal_step decimal_small)

lemma length_decimal_3: "100 \<le> n \<Longrightarrow> n < 1000 \<Longrightarrow> length (decimal n) = 3"
  by (simp add: decimal_step [of n] length_decimal_2)

lemma length_decimal_4: "1000 \<le> n \<Longrightarrow> n < 10000 \<Longrightarrow> length (decimal n) = 4"
  by (simp add: decimal_step [of n] length_decimal_3)

lemma length_pad2: "n < 100 \<Longrightarrow> length (pad2 n) = 2"
  by (cases "n < 10") (simp_all add: pad2_def decimal_small length_decimal_2)

lemma pad2_all_digit: "list_all is_digit (pad2 n)"
  by (simp add: pad2_def decimal_all_digit is_digit_def)

lemma nat_of_digits_pad2: "nat_of_digits (pad2 n) = n"
proof (cases "n < 10")
  case True
  have "nat_of_digits (CHR ''0'' # decimal n) = nat_of_digits (decimal n)"
    by (simp add: nat_of_digits_def digit_val_def)
  with True show ?thesis by (simp add: pad2_def nat_of_digits_decimal)
next
  case False
  then show ?thesis by (simp add: pad2_def nat_of_digits_decimal)
qed

lemma strftime_ymd_four_digit_year:
  assumes "1000 \<le> y" and "y \<le> 9999" and "m < 100" and "d < 100"
  shows "iso_date_shape (strftime_ymd y m d)" and "read_ymd (strftime_ymd y m d) = (y, m, d)"
proof -
  from assms have l4: "length (decimal y) = 4" by (simp add: length_decimal_4)
  from assms have lm: "length (pad2 m) = 2" and ld: "length (pad2 d) = 2"
    by (simp_all add: length_pad2)
  show "iso_date_shape (strftime_ymd y m d)"
    unfolding iso_date_shape_def strftime_ymd_def
    using decimal_all_digit [of y] pad2_all_digit [of m] pad2_all_digit [of d]
    by (simp add: nth_append l4 lm ld)
  show "read_ymd (strftime_ymd y m d) = (y, m, d)"
    unfolding read_ymd_def strftime_ymd_def
    by (simp add: l4 lm ld nat_of_digits_decimal nat_of_digits_pad2)
qed

lemma py_date_ok_bounds:
  assumes "py_date_ok (y, m, d)"
  shows "1 \<le> y" and "y \<le> 9999" and "m < 100" and "d < 100"
  using assms by (auto simp: py_date_ok_def days_in_month_def split: if_splits)


text \<open>
  Claim C7 says that every successful lookup surfaces \<^verbatim>\<open>join_date\<close> and \<^verbatim>\<open>last_payment\<close>
  as \<^verbatim>\<open>YYYY-MM-DD\<close> strings. A stored NULL is guarded by the code and stays null, and the
  date of a year below 1000 is formatted with its year unpadded, which is not of that
  shape.
\<close>

theorem lookup_surfaces_dates_as_text_counterexample:
  "map_of (fst (query_customer_info
                  (demo_world\<lparr>customer_support := [sarah\<lparr>cust_join_date := None\<rparr>]\<rparr>)
                  (Some ''CUST001'') ''full'')) ''join_date'' = Some PNone \<and>
   py_date_ok (999, 1, 5) \<and>
   map_of (fst (query_customer_info
                  (demo_world\<lparr>customer_support := [sarah\<lparr>cust_join_date := Some (999, 1, 5)\<rparr>]\<rparr>)
                  (Some ''CUST001'') ''full'')) ''join_date'' = Some (PStr ''999-01-05'') \<and>
   \<not> iso_date_shape ''999-01-05''"
  by code_simp

text \<open>
  Claim C7, amended. For every successful lookup, of any scope, whose row holds dates
  that \<^verbatim>\<open>datetime.date\<close> can hold: a stored \<^verbatim>\<open>join_date\<close> or \<^verbatim>\<open>last_payment\<close> that the
  scope selects comes back as the text \<^verbatim>\<open>strftime\<close> makes of it and a stored NULL comes
  back as null; for a year from 1000 on that text has the shape \<^verbatim>\<open>YYYY-MM-DD\<close> and reads
  back as the stored year, month and day; a \<^verbatim>\<open>support_history\<close> stored as NULL comes back
  as the empty sequence; and no value of the returned record is a native date object.
  The full scope, which is every scope other than \<^verbatim>\<open>billing\<close> and \<^verbatim>\<open>history\<close>, selects
  all three columns.
\<close>

theorem lookup_surfaces_dates_as_text:
  assumes "c \<noteq> []" and "startswith c ''CUST''"
    and "connect_error w OpSelect = None" and "statement_error w OpSelect = None"
    and "find (\<lambda>r. cust_id r = c) (customer_support w) = Some r"
    and dates: "\<forall>dt. cust_join_date r = Some dt \<or> cust_last_payment r = Some dt \<longrightarrow>
                  py_date_ok dt"
  shows "(qt \<noteq> ''billing'' \<longrightarrow>
            map_of (fst (query_customer_info w (Some c) qt)) ''join_date'' =
              Some (case cust_join_date r of
                      None \<Rightarrow> PNone
                    | Some (y, m, d) \<Rightarrow> PStr (strftime_ymd y m d))) \<and>
         (qt \<noteq> ''history'' \<longrightarrow>
            map_of (fst (query_customer_info w (Some c) qt)) ''last_payment'' =
              Some (case cust_last_payment r of
                      None \<Rightarrow> PNone
                    | Some (y, m, d) \<Rightarrow> PStr (strftime_ymd y m d))) \<and>
         (\<forall>y m d. qt \<noteq> ''billing'' \<and> cust_join_date r = Some (y, m, d) \<and> 1000 \<le> y \<longrightarrow>
            (\<exists>s. map_of (fst (query_customer_info w (Some c) qt)) ''join_date'' =
                    Some (PStr s) \<and>
                  iso_date_shape s \<and> read_ymd s = (y, m, d))) \<and>
         (\<forall>y m d. qt \<noteq> ''history'' \<and> cust_last_payment r = Some (y, m, d) \<and> 1000 \<le> y \<longrightarrow>
            (\<exists>s. map_of (fst (query_customer_info w (Some c) qt)) ''last_payment'' =
                    Some (PStr s) \<and>
                  iso_date_shape s \<and> read_ymd s = (y, m, d))) \<and>
         (qt \<noteq> ''billing'' \<longrightarrow>
            map_of (fst (query_customer_info w (Some c) qt)) ''support_history'' =
              Some (case cust_support_history r of
                      None \<Rightarrow> PList []
                    | Some xs \<Rightarrow> PList (map PStr xs))) \<and>
         (\<forall>kv \<in> set (fst (query_customer_info w (Some c) qt)). \<not> is_date (snd kv))"
proof -
  have shape: "iso_date_shape (strftime_ymd y m d) \<and> read_ymd (strftime_ymd y m d) = (y, m, d)"
    if "cust_join_date r = Some (y, m, d) \<or> cust_last_payment r = Some (y, m, d)"
      and "1000 \<le> y" for y m d
  proof -
    from that(1) dates have ok: "py_date_ok (y, m, d)" by blast
    from py_date_ok_bounds [OF ok] that(2) show ?thesis
      by (simp add: strftime_ymd_four_digit_year)
  qed
  consider (billing) "qt = ''billing''" | (history) "qt = ''history''"
    | (full) "qt \<noteq> ''billing''" "qt \<noteq> ''history''"
    by blast
  then show ?thesis
  proof cases
    case billing
    note found = query_found [OF assms(1-5) convert_row_billing]
    show ?thesis unfolding billing found using shape
      by (simp add: not_date_opt_str split: option.splits)
  next
    case history
    note found = query_found [OF assms(1-5) convert_row_history]
    show ?thesis unfolding history found using shape
      by (simp add: not_date_opt_str split: option.splits)
  next
    case full
    note found = query_found [OF assms(1-5) convert_row_full [OF full]]
    show ?thesis unfolding found using full shape
      by (simp add: not_date_opt_str split: option.splits)
  qed
qed

theorem lookup_surfaces_dates_as_text_witness:
  "map_of (fst (query_customer_info demo_world (Some ''CUST001'') ''full'')) ''join_date'' =
     Some (PStr ''2023-01-15'') \<and>
   map_of (fst (query_customer_info demo_world (Some ''CUST001'') ''full''))
     ''support_history'' = Some (PList [])"
proof -
  have j: "strftime_ymd 2023 1 15 = ''2023-01-15''" by code_simp
  have h: "''CUST001'' \<noteq> []" "startswith ''CUST001'' ''CUST''"
    "connect_error demo_world OpSelect = None" "statement_error demo_world OpSelect = None"
    "find (\<lambda>r. cust_id r = ''CUST001'') (customer_support demo_world) = Some sarah"
    by (simp_all add: demo_world_def sarah_def startswith_def)
  have ok: "\<forall>dt. cust_join_date sarah = Some dt \<or> cust_last_payment sarah = Some dt \<longrightarrow>
                  py_date_ok dt"
    by (auto simp: sarah_def py_date_ok_def days_in_month_def)
  from lookup_surfaces_dates_as_text [OF h ok, of "''full''"] j show ?thesis
    by (simp add: sarah_def)
qed

section \<open>Failures of the customer lookup\<close>

text \<open>
  Claim C4 says that a connection failure yields an error object containing the
  underlying message. It does not: whatever \<^verbatim>\<open>psycopg2.connect\<close> says, the error object
  is the fixed text \<^verbatim>\<open>Database connection failed\<close>; the message is only printed.
\<close>

theorem query_customer_info_connection_message_counterexample:
  "fst (query_customer_info
          (demo_world\<lparr>connect_error := (\<lambda>op. Some ''connection refused'')\<rparr>)
          (Some ''CUST001'') ''full'') =
     [(''error'', PStr ''Database connection failed'')] \<and>
   \<not> contains ''Database connection failed'' ''connection refused''"
  by code_simp

text \<open>
  Claim C4, amended. \<^verbatim>\<open>query_customer_info\<close> returns a dictionary on every path, and its
  failures are error objects: an id that is missing, empty or does not start with
  \<^verbatim>\<open>CUST\<close> yields the expected format, before any call on the store; a failed connection
  yields the fixed text \<^verbatim>\<open>Database connection failed\<close>, the underlying message being
  printed only; a failed statement yields \<^verbatim>\<open>Database query failed:\<close> followed by the
  underlying message; no matching row yields an error object naming the id. On a
  connection the last thing done is to close it.
\<close>

theorem query_customer_info_errors_are_values:
  "(\<not> known cid \<or> \<not> startswith (str_of_id cid) ''CUST'' \<longrightarrow>
      query_customer_info w cid qt =
        ([(''error'', PStr (''Invalid customer ID format: '' @ str_of_id cid @
                            ''. Expected format: CUSTXXX''))],
         [CallLookup cid qt, Log (QueryingCustomer cid)])) \<and>
   (known cid \<and> startswith (str_of_id cid) ''CUST'' \<longrightarrow>
      (\<forall>m. connect_error w OpSelect = Some m \<longrightarrow>
         fst (query_customer_info w cid qt) =
           [(''error'', PStr ''Database connection failed'')] \<and>
         Log (ConnectionError m) \<in> set (snd (query_customer_info w cid qt))) \<and>
      (connect_error w OpSelect = None \<longrightarrow>
         (\<forall>m. statement_error w OpSelect = Some m \<longrightarrow>
            fst (query_customer_info w cid qt) =
              [(''error'', PStr (''Database query failed: '' @ m))]) \<and>
         (statement_error w OpSelect = None \<and>
          find (\<lambda>r. cust_id r = str_of_id cid) (customer_support w) = None \<longrightarrow>
            fst (query_customer_info w cid qt) =
              [(''error'', PStr (''Customer '' @ str_of_id cid @
                                 '' not found in database''))]) \<and>
         last (snd (query_customer_info w cid qt)) = Close))"
  by (auto simp: query_customer_info_def Let_def get_connection_def fetchone_def
        error_object_def split: option.splits sum.splits)

theorem query_customer_info_errors_are_values_witness:
  "fst (query_customer_info
          (demo_world\<lparr>statement_error := (\<lambda>op. Some ''relation does not exist'')\<rparr>)
          (Some ''CUST001'') ''full'') =
     [(''error'', PStr ''Database query failed: relation does not exist'')]"
  using query_customer_info_errors_are_values
    [of "Some ''CUST001''"
        "demo_world\<lparr>statement_error := (\<lambda>op. Some ''relation does not exist'')\<rparr>"
        "''full''"]
  by (simp add: demo_world_def known_def str_of_id_def startswith_def)


section \<open>The identifier extractor\<close>

lemma error_marker_not_id: "\<not> startswith (py_strip (error_marker @ e)) ''CUST''"
proof -
  have "\<not> is_space CHR ''A''" by (simp add: is_space_def)
  then have "\<exists>ys. py_strip (CHR ''A'' # (''n error occurred: '' @ e)) = CHR ''A'' # ys"
    by (rule py_strip_keeps_head)
  then obtain ys where "py_strip (error_marker @ e) = CHR ''A'' # ys"
    by (auto simp: error_marker_def)
  then show ?thesis by (simp add: startswith_def)
qed

lemma extract_customer_id_value:
  "fst (extract_customer_id w t) =
     (case llm w (ExtractId t) of
        Raises e \<Rightarrow> None
      | Returns None \<Rightarrow> None
      | Returns (Some r) \<Rightarrow>
          if py_strip r = ''NONE'' \<or> \<not> startswith (py_strip r) ''CUST'' then None
          else Some (py_strip r))"
  by (simp add: extract_customer_id_def call_openai_def Let_def error_marker_not_id
        split: llm_outcome.splits option.splits)

text \<open>
  Claim C6 says that a raw answer not starting with \<^verbatim>\<open>CUST\<close> maps to null. The answer is
  stripped before it is validated, so a raw answer with leading white space does not
  start with \<^verbatim>\<open>CUST\<close> and still yields an id.
\<close>

theorem extract_customer_id_raw_answer_counterexample:
  "\<not> startswith '' CUST001'' ''CUST'' \<and>
   fst (extract_customer_id (demo_world\<lparr>llm := (\<lambda>rq. Returns (Some '' CUST001''))\<rparr>)
          ''My id is CUST001'') = Some ''CUST001''"
  by code_simp

text \<open>
  Claim C6, amended. \<^verbatim>\<open>extract_customer_id\<close> returns null whenever the service's answer,
  stripped of surrounding white space, is \<^verbatim>\<open>NONE\<close> or does not start with \<^verbatim>\<open>CUST\<close>, and
  whenever the service raises or returns no content. An id it returns starts with
  \<^verbatim>\<open>CUST\<close> and is the stripped answer of the service: it is never made up.
\<close>

theorem extract_customer_id_validates_stripped_answer:
  "(\<forall>r. llm w (ExtractId t) = Returns (Some r) \<and>
         (py_strip r = ''NONE'' \<or> \<not> startswith (py_strip r) ''CUST'') \<longrightarrow>
         fst (extract_customer_id w t) = None) \<and>
   (\<forall>e. llm w (ExtractId t) = Raises e \<longrightarrow> fst (extract_customer_id w t) = None) \<and>
   (llm w (ExtractId t) = Returns None \<longrightarrow> fst (extract_customer_id w t) = None) \<and>
   (\<forall>x. fst (extract_customer_id w t) = Some x \<longrightarrow>
        startswith x ''CUST'' \<and>
        (\<exists>r. llm w (ExtractId t) = Returns (Some r) \<and> x = py_strip r))"
  by (auto simp: extract_customer_id_value split: llm_outcome.splits option.splits if_splits)

theorem extract_customer_id_validates_stripped_answer_witness:
  "fst (extract_customer_id (demo_world\<lparr>llm := (\<lambda>rq. Returns (Some ''NONE''))\<rparr>)
          ''What does the Basic plan include?'') = None"
proof -
  have s: "py_strip ''NONE'' = ''NONE''" by code_simp
  show ?thesis
    using extract_customer_id_validates_stripped_answer
      [of "demo_world\<lparr>llm := (\<lambda>rq. Returns (Some ''NONE''))\<rparr>"
          "''What does the Basic plan include?''"] s
    by simp
qed

text \<open>
  Claim C8 says that a ticket with a labeled token yields exactly that token. What is
  returned is what the service answers: on the ticket \<^verbatim>\<open>Customer ID: CUST007\<close> a service
  answering \<^verbatim>\<open>CUST007.\<close> yields that decorated form, and a service answering \<^verbatim>\<open>NONE\<close>
  yields null.
\<close>

theorem extract_customer_id_labeled_token_counterexample:
  "fst (extract_customer_id (demo_world\<lparr>llm := (\<lambda>rq. Returns (Some ''CUST007.''))\<rparr>)
          ''Customer ID: CUST007'') = Some ''CUST007.'' \<and>
   fst (extract_customer_id (demo_world\<lparr>llm := (\<lambda>rq. Returns (Some ''NONE''))\<rparr>)
          ''Customer ID: CUST007'') = None"
  by code_simp

text \<open>
  Claim C8, amended. For every ticket text, when the service's answer, stripped of
  surrounding white space, is \<^verbatim>\<open>CUST\<close> followed by one or more digits,
  \<^verbatim>\<open>extract_customer_id\<close> returns exactly that token.
\<close>

theorem extract_customer_id_returns_service_token:
  assumes "llm w (ExtractId t) = Returns (Some r)"
    and "py_strip r = ''CUST'' @ ds" and "ds \<noteq> []" and "list_all is_digit ds"
  shows "fst (extract_customer_id w t) = Some (''CUST'' @ ds)"
proof -
  have "startswith (''CUST'' @ ds) ''CUST''" by (simp add: startswith_def)
  moreover have "''CUST'' @ ds \<noteq> ''NONE''" by simp
  ultimately show ?thesis using assms(1,2) by (simp add: extract_customer_id_value)
qed

theorem extract_customer_id_returns_service_token_witness:
  "fst (extract_customer_id (demo_world\<lparr>llm := (\<lambda>rq. Returns (Some '' CUST007 ''))\<rparr>)
          ''Customer ID: CUST007'') = Some ''CUST007''"
proof -
  let ?w = "demo_world\<lparr>llm := (\<lambda>rq. Returns (Some '' CUST007 ''))\<rparr>"
  have h: "llm ?w (ExtractId ''Customer ID: CUST007'') = Returns (Some '' CUST007 '')"
    by simp
  have s: "py_strip '' CUST007 '' = ''CUST'' @ ''007''" by code_simp
  have d: "''007'' \<noteq> []" "list_all is_digit ''007''" by (simp_all add: is_digit_def)
  from extract_customer_id_returns_service_token [OF h s d] show ?thesis by simp
qed

section \<open>A falsy caller-supplied id\<close>

lemma and_then_trace:
  "snd (and_then m f) = (case fst m of Inl e \<Rightarrow> snd m | Inr x \<Rightarrow> snd m @ snd (f x))"
  by (cases m) (auto simp: and_then_def split: sum.splits prod.splits)

lemma and_then_no_raise:
  "and_then (no_raise m) f = (fst (f (fst m)), snd m @ snd (f (fst m)))"
  by (simp add: and_then_def no_raise_def case_prod_unfold)

lemma and_then_lookups_subset:
  assumes "set (lookup_calls (snd m)) \<subseteq> S"
    and "\<And>x. set (lookup_calls (snd (f x))) \<subseteq> S"
  shows "set (lookup_calls (snd (and_then m f))) \<subseteq> S"
  using assms by (auto simp: and_then_trace lookup_calls_append split: sum.splits)

lemma gather_lookups_subset:
  "set (lookup_calls (snd (gather_customer_data w a cid))) \<subseteq> {p. fst p = cid \<and> known cid}"
  by (auto simp: gather_customer_data_def and_then_trace subscript_def no_raise_def
        case_prod_unfold query_lookups lookup_calls_append split: sum.splits option.splits)

lemma solve_step_lookups_subset: "set (lookup_calls (snd (solve_step w a tc info))) \<subseteq> S"
  using solve_step_lookups [of w a tc info "fst (solve_step w a tc info)"
      "snd (solve_step w a tc info)"]
  by simp

lemma compose_step_lookups_subset:
  "set (lookup_calls (snd (compose_step w a info sol tc))) \<subseteq> S"
  using compose_step_lookups [of w a info sol tc "fst (compose_step w a info sol tc)"
      "snd (compose_step w a info sol tc)"]
  by simp

lemma persist_step_lookups_subset:
  "set (lookup_calls (snd (persist_step w a reply))) \<subseteq> S"
  using persist_step_lookups [of w a reply "fst (persist_step w a reply)"
      "snd (persist_step w a reply)"]
  by simp

lemma print_analysis_trace: "snd (print_analysis a) = []"
  by (simp add: print_analysis_def split: sum.splits)

lemma process_lookups_subset:
  "set (lookup_calls (snd (process_support_ticket w tc c0))) \<subseteq>
     {p. fst p = fst (identify w tc c0) \<and> known (fst (identify w tc c0))}"
proof -
  let ?cid = "fst (identify w tc c0)"
  let ?S = "{p. fst p = ?cid \<and> known ?cid}"
  let ?rest = "and_then (analyze_ticket w tc ?cid) (\<lambda>ticket_analysis.
     and_then (print_analysis ticket_analysis) (\<lambda>u.
     and_then (gather_customer_data w ticket_analysis ?cid) (\<lambda>info.
     and_then (solve_step w ticket_analysis tc info) (\<lambda>solution.
     and_then (compose_step w ticket_analysis info solution tc) (\<lambda>reply.
     and_then (persist_step w ticket_analysis reply) (\<lambda>u'.
     and_then (subscript ticket_analysis ''estimated_resolution_time'') (\<lambda>ert.
       (Inr \<lparr> final_reply = reply,
              analysis = ticket_analysis,
              agents_used = summarize info solution,
              customer_info = info,
              technical_solution = solution \<rparr>, []))))))))"
  have "set (lookup_calls (snd ?rest)) \<subseteq> ?S"
    by (intro and_then_lookups_subset)
       (simp_all add: analyze_lookups print_analysis_trace
          gather_lookups_subset solve_step_lookups_subset compose_step_lookups_subset
          persist_step_lookups_subset subscript_def)
  moreover have "snd (process_support_ticket w tc c0) = snd (identify w tc c0) @ snd ?rest"
    unfolding process_support_ticket_def by (simp add: and_then_no_raise)
  ultimately show ?thesis
    by (simp add: lookup_calls_append identify_lookups)
qed

lemma process_trace_starts:
  "\<exists>rest. snd (process_support_ticket w tc c0) = snd (identify w tc c0) @ rest"
  unfolding process_support_ticket_def
  by (simp add: and_then_trace no_raise_def split: sum.splits)

text \<open>
  Claim C9. For every ticket and every world, passing the empty string as
  \<^verbatim>\<open>customer_id\<close> gives the same result and the same effects as passing none: the run
  starts by entering the identifier extractor, which calls the Completion Service, and
  no customer lookup of the run, whether it returns or raises, has the empty string as
  its key.
\<close>

theorem empty_customer_id_is_absent:
  "process_support_ticket w ticket_content (Some []) =
     process_support_ticket w ticket_content None \<and>
   hd (snd (process_support_ticket w ticket_content (Some []))) = CallExtract ticket_content \<and>
   Completion (ExtractId ticket_content) \<in>
     set (snd (process_support_ticket w ticket_content (Some []))) \<and>
   (\<forall>qt. (Some [], qt) \<notin>
      set (lookup_calls (snd (process_support_ticket w ticket_content (Some [])))))"
proof -
  have same: "identify w ticket_content (Some []) = identify w ticket_content None"
    by (simp add: identify_def known_def)
  have ex: "identify w ticket_content (Some []) = extract_customer_id w ticket_content"
    by (simp add: identify_def known_def)
  have tr: "\<exists>more. snd (extract_customer_id w ticket_content) =
              CallExtract ticket_content # Log ExtractingId #
              Completion (ExtractId ticket_content) # more"
    using call_openai_trace [of w "ExtractId ticket_content"]
    by (simp add: extract_customer_id_def Let_def case_prod_unfold split: option.splits)
  obtain rest where rest: "snd (process_support_ticket w ticket_content (Some [])) =
      snd (identify w ticket_content (Some [])) @ rest"
    using process_trace_starts by blast
  have 1: "process_support_ticket w ticket_content (Some []) =
           process_support_ticket w ticket_content None"
    by (simp add: process_support_ticket_def same)
  from tr rest ex have 2: "hd (snd (process_support_ticket w ticket_content (Some []))) =
      CallExtract ticket_content"
    and 3: "Completion (ExtractId ticket_content) \<in>
      set (snd (process_support_ticket w ticket_content (Some [])))"
    by auto
  have 4: "(Some [], qt) \<notin>
      set (lookup_calls (snd (process_support_ticket w ticket_content (Some []))))" for qt
    using process_lookups_subset [of w ticket_content "Some []"]
    by (auto simp: known_def)
  from 1 2 3 4 show ?thesis by blast
qed


theorem empty_customer_id_is_absent_witness:
  "process_support_ticket demo_world ''Customer ID: CUST001'' (Some []) =
     process_support_ticket demo_world ''Customer ID: CUST001'' None \<and>
   hd (snd (process_support_ticket demo_world ''Customer ID: CUST001'' (Some []))) =
     CallExtract ''Customer ID: CUST001''"
  using empty_customer_id_is_absent [of demo_world "''Customer ID: CUST001''"]
  by blast

section \<open>Attaching the reply\<close>

lemma get_connection_no_update:
  "op \<noteq> OpUpdate \<Longrightarrow> filter is_update_event (snd (get_connection w op)) = []"
  by (cases op) (simp_all add: get_connection_def split: option.splits)

lemma extract_no_update: "filter is_update_event (snd (extract_customer_id w t)) = []"
  using call_openai_trace [of w "ExtractId t"]
  by (simp add: extract_customer_id_def Let_def case_prod_unfold split: option.splits)

lemma identify_no_update: "filter is_update_event (snd (identify w t c)) = []"
  by (simp add: identify_def extract_no_update)

lemma save_no_update: "filter is_update_event (snd (save_ticket_to_db w a c t)) = []"
  using get_connection_no_update [of OpInsert w]
  by (simp add: save_ticket_to_db_def case_prod_unfold
           split: bool.splits sum.splits option.splits)

lemma analyze_no_update: "filter is_update_event (snd (analyze_ticket w t c)) = []"
  using call_openai_trace [of w "AnalyzeTicket t"]
  by (simp add: analyze_ticket_def Let_def case_prod_unfold save_no_update split: pyval.splits)

lemma query_no_update: "filter is_update_event (snd (query_customer_info w c q)) = []"
  using get_connection_no_update [of OpSelect w]
  by (simp add: query_customer_info_def Let_def case_prod_unfold
           split: bool.splits sum.splits option.splits)

lemma gather_no_update:
  "filter is_update_event (snd (gather_customer_data w a cid)) = []"
  by (simp add: gather_customer_data_def and_then_trace subscript_def no_raise_def
        case_prod_unfold query_no_update split: sum.splits option.splits)

lemma solve_step_no_update: "filter is_update_event (snd (solve_step w a tc info)) = []"
  by (simp add: solve_step_def and_then_trace subscript_def no_raise_def
        solve_technical_issue_def Let_def case_prod_unfold call_openai_trace
        split: sum.splits option.splits)

lemma compose_step_no_update:
  "filter is_update_event (snd (compose_step w a info sol tc)) = []"
  by (simp add: compose_step_def and_then_trace subscript_def no_raise_def
        compose_reply_def Let_def case_prod_unfold call_openai_trace
        split: sum.splits option.splits)

lemma analyze_ticket_id:
  assumes "analyze_ticket w t c = (Inr a, tr)"
  shows "\<exists>d. map_of a ''ticket_id'' = Some (fst (save_ticket_to_db w (PDict d) c t))"
  using assms
  by (auto simp: analyze_ticket_def Let_def case_prod_unfold map_of_py_setitem
        split: pyval.splits)

lemma save_failed_is_null:
  assumes "connect_error w OpInsert \<noteq> None \<or> statement_error w OpInsert \<noteq> None"
  shows "fst (save_ticket_to_db w a c t) = PNone"
  using assms
  by (auto simp: save_ticket_to_db_def get_connection_def split: option.splits sum.splits)


lemma persist_step_skipped:
  assumes "\<not> truthy (py_get a ''ticket_id'' PNone)"
  shows "persist_step w a reply = (Inr (), [])"
  using assms by (simp add: persist_step_def)

text \<open>
  Claim C5 says that on any store error \<^verbatim>\<open>update_ticket_recommendation\<close> rolls back. When
  the store cannot be reached there is no connection to roll back: the failure is
  printed and the function returns, without a rollback.
\<close>

theorem update_ticket_recommendation_rollback_counterexample:
  "update_ticket_recommendation
     (demo_world\<lparr>connect_error := (\<lambda>op. Some ''connection refused'')\<rparr>)
     (PInt 42) (Some ''Guten Tag'') =
     [CallUpdate (PInt 42) (Some ''Guten Tag''), Log (UpdatingTicket (PInt 42)),
      Connect OpUpdate, Log (ConnectionError ''connection refused''), Log CouldNotUpdate] \<and>
   Rollback \<notin> set (update_ticket_recommendation
     (demo_world\<lparr>connect_error := (\<lambda>op. Some ''connection refused'')\<rparr>)
     (PInt 42) (Some ''Guten Tag''))"
  by (simp add: update_ticket_recommendation_def get_connection_def demo_world_def)

text \<open>
  Claim C5, amended. \<^verbatim>\<open>update_ticket_recommendation\<close> does nothing, and calls the store
  not at all, when the ticket id is null (or otherwise falsy). It never raises: a failed
  connection is printed, and the function returns; an error of the statement on an open
  connection is printed and rolled back, and the connection is closed. Consequently,
  in every run of the routing procedure that returns, a failed insert (no connection, or
  a failing statement) leaves the ticket id null, and with a null ticket id the run
  neither enters \<^verbatim>\<open>update_ticket_recommendation\<close> nor connects for or executes an UPDATE.
\<close>

theorem update_ticket_recommendation_is_guarded:
  "(\<not> truthy ticket_id \<longrightarrow>
      update_ticket_recommendation w ticket_id answer = [CallUpdate ticket_id answer]) \<and>
   (truthy ticket_id \<longrightarrow>
      (\<forall>m. connect_error w OpUpdate = Some m \<longrightarrow>
         update_ticket_recommendation w ticket_id answer =
           [CallUpdate ticket_id answer, Log (UpdatingTicket ticket_id), Connect OpUpdate,
            Log (ConnectionError m), Log CouldNotUpdate]) \<and>
      (connect_error w OpUpdate = None \<longrightarrow>
         (\<forall>m. statement_error w OpUpdate = Some m \<longrightarrow>
            update_ticket_recommendation w ticket_id answer =
              [CallUpdate ticket_id answer, Log (UpdatingTicket ticket_id), Connect OpUpdate,
               Execute (UpdateTicket ticket_id answer), Log (UpdateError m),
               Rollback, Close]) \<and>
         (statement_error w OpUpdate = None \<longrightarrow>
            update_ticket_recommendation w ticket_id answer =
              [CallUpdate ticket_id answer, Log (UpdatingTicket ticket_id), Connect OpUpdate,
               Execute (UpdateTicket ticket_id answer), Commit,
               Log (TicketUpdated ticket_id), Close]))) \<and>
   (\<forall>res tr. process_support_ticket w ticket_content customer_id0 = (Inr res, tr) \<longrightarrow>
      (connect_error w OpInsert \<noteq> None \<or> statement_error w OpInsert \<noteq> None \<longrightarrow>
         map_of (analysis res) ''ticket_id'' = Some PNone) \<and>
      (\<not> truthy (py_get (analysis res) ''ticket_id'' PNone) \<longrightarrow>
         filter is_update_event tr = []))"
proof -
  have fn: "(\<not> truthy ticket_id \<longrightarrow>
      update_ticket_recommendation w ticket_id answer = [CallUpdate ticket_id answer]) \<and>
   (truthy ticket_id \<longrightarrow>
      (\<forall>m. connect_error w OpUpdate = Some m \<longrightarrow>
         update_ticket_recommendation w ticket_id answer =
           [CallUpdate ticket_id answer, Log (UpdatingTicket ticket_id), Connect OpUpdate,
            Log (ConnectionError m), Log CouldNotUpdate]) \<and>
      (connect_error w OpUpdate = None \<longrightarrow>
         (\<forall>m. statement_error w OpUpdate = Some m \<longrightarrow>
            update_ticket_recommendation w ticket_id answer =
              [CallUpdate ticket_id answer, Log (UpdatingTicket ticket_id), Connect OpUpdate,
               Execute (UpdateTicket ticket_id answer), Log (UpdateError m),
               Rollback, Close]) \<and>
         (statement_error w OpUpdate = None \<longrightarrow>
            update_ticket_recommendation w ticket_id answer =
              [CallUpdate ticket_id answer, Log (UpdatingTicket ticket_id), Connect OpUpdate,
               Execute (UpdateTicket ticket_id answer), Commit,
               Log (TicketUpdated ticket_id), Close])))"
    by (simp add: update_ticket_recommendation_def get_connection_def)
  have run: "(connect_error w OpInsert \<noteq> None \<or> statement_error w OpInsert \<noteq> None \<longrightarrow>
         map_of (analysis res) ''ticket_id'' = Some PNone) \<and>
      (\<not> truthy (py_get (analysis res) ''ticket_id'' PNone) \<longrightarrow>
         filter is_update_event tr = [])"
    if p: "process_support_ticket w ticket_content customer_id0 = (Inr res, tr)" for res tr
  proof -
    let ?cid = "fst (identify w ticket_content customer_id0)"
    from p obtain a t0 t1 info t2 sol t3 reply t4 t5 where
      an: "analyze_ticket w ticket_content ?cid = (Inr a, t1)" and
      t0: "t0 = snd (identify w ticket_content customer_id0)" and
      g: "gather_customer_data w a ?cid = (Inr info, t2)" and
      s: "solve_step w a ticket_content info = (Inr sol, t3)" and
      c: "compose_step w a info sol ticket_content = (Inr reply, t4)" and
      ps: "persist_step w a reply = (Inr (), t5)" and
      res: "res = \<lparr> final_reply = reply, analysis = a, agents_used = summarize info sol,
                    customer_info = info, technical_solution = sol \<rparr>" and
      tr: "tr = t0 @ t1 @ t2 @ t3 @ t4 @ t5"
      by (rule process_Inr)
    have a: "analysis res = a" by (simp add: res)
    have u0: "filter is_update_event t0 = []" by (simp add: t0 identify_no_update)
    have u1: "filter is_update_event t1 = []"
      using analyze_no_update [of w ticket_content ?cid] an by simp
    have u2: "filter is_update_event t2 = []"
      using gather_no_update [of w a ?cid] g by simp
    have u3: "filter is_update_event t3 = []"
      using solve_step_no_update [of w a ticket_content info] s by simp
    have u4: "filter is_update_event t4 = []"
      using compose_step_no_update [of w a info sol ticket_content] c by simp
    have skip: "filter is_update_event tr = []"
      if "\<not> truthy (py_get (analysis res) ''ticket_id'' PNone)"
    proof -
      from that a have "persist_step w a reply = (Inr (), [])"
        by (simp add: persist_step_skipped)
      with ps have "t5 = []" by simp
      with tr u0 u1 u2 u3 u4 show ?thesis by simp
    qed
    have null: "map_of (analysis res) ''ticket_id'' = Some PNone"
      if "connect_error w OpInsert \<noteq> None \<or> statement_error w OpInsert \<noteq> None"
    proof -
      from analyze_ticket_id [OF an] obtain d where
        "map_of a ''ticket_id'' =
           Some (fst (save_ticket_to_db w (PDict d) ?cid ticket_content))"
        by blast
      with that a show ?thesis by (simp add: save_failed_is_null)
    qed
    from skip null show ?thesis by blast
  qed
  from fn run show ?thesis by blast
qed

theorem update_ticket_recommendation_is_guarded_witness:
  "update_ticket_recommendation
     (demo_world\<lparr>statement_error := (\<lambda>op. Some ''deadlock detected'')\<rparr>)
     (PInt 42) (Some ''Guten Tag'') =
     [CallUpdate (PInt 42) (Some ''Guten Tag''), Log (UpdatingTicket (PInt 42)),
      Connect OpUpdate, Execute (UpdateTicket (PInt 42) (Some ''Guten Tag'')),
      Log (UpdateError ''deadlock detected''), Rollback, Close] \<and>
   update_ticket_recommendation demo_world PNone (Some ''Guten Tag'') =
     [CallUpdate PNone (Some ''Guten Tag'')]"
  using update_ticket_recommendation_is_guarded
    [of "PInt 42" "demo_world\<lparr>statement_error := (\<lambda>op. Some ''deadlock detected'')\<rparr>"
        "Some ''Guten Tag''" "[]" None]
    update_ticket_recommendation_is_guarded [of PNone demo_world "Some ''Guten Tag''" "[]" None]
  by (simp add: demo_world_def)

section \<open>The orchestration summary\<close>

lemma convert_date_not_Nil:
  "convert_date k d = Inr d' \<Longrightarrow> d \<noteq> [] \<Longrightarrow> d' \<noteq> []"
  by (auto simp: convert_date_def py_setitem_not_Nil
        split: option.splits if_splits pyval.splits)

lemma convert_history_not_Nil: "d \<noteq> [] \<Longrightarrow> convert_history d \<noteq> []"
  by (auto simp: convert_history_def py_setitem_not_Nil split: option.splits pyval.splits)

lemma convert_row_not_Nil:
  "convert_row d = Inr d' \<Longrightarrow> d \<noteq> [] \<Longrightarrow> d' \<noteq> []"
  by (auto simp: convert_row_def split: sum.splits
        dest!: convert_date_not_Nil intro!: convert_history_not_Nil)

lemma query_result_not_Nil: "fst (query_customer_info w c q) \<noteq> []"
  by (auto simp: query_customer_info_def Let_def error_object_def get_connection_def
        split: option.splits sum.splits dest: convert_row_not_Nil)

lemma gather_info_truthy:
  assumes "gather_customer_data w a cid = (Inr info, t)"
  shows "truthy_info info \<longleftrightarrow> info \<noteq> None"
proof -
  from gather_Inr [OF assms] have
    "info = None \<or> (\<exists>q. info = Some (fst (query_customer_info w cid q)))"
    by (auto split: if_splits)
  then show ?thesis
    by (auto simp: truthy_info_def query_result_not_Nil)
qed

text \<open>
  Claim C3 says that \<^verbatim>\<open>TechSolver\<close> is listed if and only if \<^verbatim>\<open>technical_solution\<close> is
  non-null. The summary tests the truth value of the solution: when the drafter is
  invoked and the Completion Service returns the empty text, the solution is the empty
  string, which is not null, and \<^verbatim>\<open>TechSolver\<close> is not listed.
\<close>

theorem agents_used_non_null_solution_counterexample:
  "fst (process_support_ticket (demo_world\<lparr>llm := technical_llm\<rparr>) ''API down'' None) =
     Inr \<lparr> final_reply = Some ''Guten Tag'',
           analysis = technical_analysis @ [(''ticket_id'', PInt 42)],
           agents_used = [''TicketAnalyzer'', ''ReplyAgent''],
           customer_info = None,
           technical_solution = Some [] \<rparr>"
  by code_simp

text \<open>
  Claim C3, amended. For every run of the routing procedure that returns,
  \<^verbatim>\<open>agents_used\<close> is the list \<^verbatim>\<open>TicketAnalyzer\<close>, then \<^verbatim>\<open>DatabaseAgent\<close> if and only if
  \<^verbatim>\<open>customer_info\<close> is non-null (a lookup error object is never empty and counts as
  present), then \<^verbatim>\<open>TechSolver\<close> if and only if \<^verbatim>\<open>technical_solution\<close> is neither null nor
  the empty string, then \<^verbatim>\<open>ReplyAgent\<close>: ordered, free of duplicates, beginning with
  \<^verbatim>\<open>TicketAnalyzer\<close> and ending with \<^verbatim>\<open>ReplyAgent\<close>.
\<close>

theorem agents_used_counts_truthy_results:
  assumes "process_support_ticket w ticket_content customer_id0 = (Inr res, tr)"
  shows "agents_used res =
           [''TicketAnalyzer''] @
           (if customer_info res \<noteq> None then [''DatabaseAgent''] else []) @
           (if technical_solution res \<noteq> None \<and> technical_solution res \<noteq> Some []
            then [''TechSolver''] else []) @
           [''ReplyAgent''] \<and>
         distinct (agents_used res) \<and>
         hd (agents_used res) = ''TicketAnalyzer'' \<and>
         last (agents_used res) = ''ReplyAgent'' \<and>
         (''DatabaseAgent'' \<in> set (agents_used res) \<longleftrightarrow> customer_info res \<noteq> None) \<and>
         (''TechSolver'' \<in> set (agents_used res) \<longleftrightarrow>
            technical_solution res \<noteq> None \<and> technical_solution res \<noteq> Some [])"
proof -
  from assms obtain a info t2 sol reply where
    g: "gather_customer_data w a (fst (identify w ticket_content customer_id0)) =
          (Inr info, t2)" and
    res: "res = \<lparr> final_reply = reply, analysis = a, agents_used = summarize info sol,
                  customer_info = info, technical_solution = sol \<rparr>"
    by (rule process_Inr)
  have i: "truthy_info info \<longleftrightarrow> info \<noteq> None" using g by (rule gather_info_truthy)
  have s: "truthy_text sol \<longleftrightarrow> sol \<noteq> None \<and> sol \<noteq> Some []"
    by (cases sol) (simp_all add: truthy_text_def)
  show ?thesis
    unfolding res by (simp add: summarize_def i s)
qed

theorem agents_used_counts_truthy_results_witness:
  "\<exists>res tr. process_support_ticket demo_world ''Customer ID: CUST001'' None = (Inr res, tr) \<and>
     agents_used res = [''TicketAnalyzer'', ''DatabaseAgent'', ''ReplyAgent'']"
proof -
  let ?p = "process_support_ticket demo_world ''Customer ID: CUST001'' None"
  let ?R = "\<lparr> final_reply = Some ''Guten Tag'',
           analysis = billing_analysis @ [(''ticket_id'', PInt 42)],
           agents_used = [''TicketAnalyzer'', ''DatabaseAgent'', ''ReplyAgent''],
           customer_info = Some [(''name'', PStr ''Sarah''), (''plan'', PStr ''Premium''),
                                 (''last_payment'', PStr ''2024-09-01''),
                                 (''status'', PStr ''Active'')],
           technical_solution = None \<rparr>"
  have run: "?p = (Inr ?R, snd ?p)"
    using demo_billing_run by (cases ?p) simp
  have "agents_used ?R =
           [''TicketAnalyzer''] @
           (if customer_info ?R \<noteq> None then [''DatabaseAgent''] else []) @
           (if technical_solution ?R \<noteq> None \<and> technical_solution ?R \<noteq> Some []
            then [''TechSolver''] else []) @
           [''ReplyAgent'']"
    using agents_used_counts_truthy_results [OF run] by (rule conjunct1)
  then have "agents_used ?R = [''TicketAnalyzer'', ''DatabaseAgent'', ''ReplyAgent'']"
    by simp
  with run show ?thesis by blast
qed

end
